theory Spec2Isabelle
  imports Complex_Main
begin

section \<open>Strings, registers and the role table\<close>

text \<open>
  A Python \<^verbatim>\<open>str\<close> is a sequence of Unicode code points, so it is modelled as a list of
  natural numbers. ASCII literals of the source are written with \<open>str\<close>; Korean literals
  are written as their code points (every Hangul syllable is one code point).
\<close>

type_synonym ustr = "nat list"

definition str :: "string \<Rightarrow> ustr" where
  "str s = map of_char s"

text \<open>
  \<^verbatim>\<open>str.lower()\<close>. Only the ASCII capitals are mapped here. On other code points Python
  may change the character, but never into a string made of ASCII letters that occur in a
  key of \<^verbatim>\<open>ROLE_LEVELS\<close>, which is the only place the result is used: the lookup
  succeeds for the same role strings.
\<close>

definition lower_cp :: "nat \<Rightarrow> nat" where
  "lower_cp c = (if 65 \<le> c \<and> c \<le> 90 then c + 32 else c)"

definition lower :: "ustr \<Rightarrow> ustr" where
  "lower s = map lower_cp s"

text \<open>
  The formality levels travel through the source as the strings \<^verbatim>\<open>informal\<close>,
  \<^verbatim>\<open>polite\<close>, \<^verbatim>\<open>very_polite\<close>, \<^verbatim>\<open>neutral\<close>, \<^verbatim>\<open>honorific\<close> and
  \<^verbatim>\<open>mixed\<close>; no other level string is ever produced.
\<close>

datatype level = Informal | Polite | VeryPolite | Neutral | Honorific | Mixed

text \<open>\<^verbatim>\<open>d.get(k, default)\<close> on a dictionary written as an association list.\<close>

definition dict_get :: "('k \<times> 'v) list \<Rightarrow> 'k \<Rightarrow> 'v \<Rightarrow> 'v" where
  "dict_get d k dflt = (case map_of d k of None \<Rightarrow> dflt | Some v \<Rightarrow> v)"

text \<open>\<^verbatim>\<open>ROLE_LEVELS\<close> of \<^verbatim>\<open>app/core/constants.py\<close>.\<close>

definition ROLE_LEVELS :: "(ustr \<times> int) list" where
  "ROLE_LEVELS =
    [(str ''junior'', 0), (str ''student'', 0), (str ''friend'', 1), (str ''peer'', 1),
     (str ''senior'', 2), (str ''professor'', 3), (str ''boss'', 3)]"

text \<open>The hierarchy level of a role, as both services compute it:
  \<^verbatim>\<open>ROLE_LEVELS.get(target_role.lower(), 1)\<close>.\<close>

definition role_level :: "ustr \<Rightarrow> int" where
  "role_level target_role = dict_get ROLE_LEVELS (lower target_role) 1"

section \<open>Relationship policy\<close>

text \<open>
  \<^verbatim>\<open>PolitenessService._get_recommended_level\<close> (sentence-level service). The test
  \<^verbatim>\<open>if target_age and target_age > user_age + 3\<close> is false for \<^verbatim>\<open>None\<close> and for
  the age 0, which Python treats as false.
\<close>

definition get_recommended_level :: "ustr \<Rightarrow> int option \<Rightarrow> int \<Rightarrow> level" where
  "get_recommended_level target_role target_age user_age =
    (let target_level = dict_get ROLE_LEVELS (lower target_role) 1;
         user_level = dict_get ROLE_LEVELS (str ''student'') 0;
         power_distance = target_level - user_level
     in if target_level \<ge> 3 then VeryPolite
        else if power_distance > 0 then Polite
        else if (case target_age of None \<Rightarrow> False
                 | Some a \<Rightarrow> a \<noteq> 0 \<and> a > user_age + 3) then Polite
        else if power_distance \<le> 0 then Informal
        else Polite)"

text \<open>
  \<^verbatim>\<open>EnhancedPolitenessService._get_expected_level\<close> (word-level service).
  \<^verbatim>\<open>if not target_role\<close> holds for \<^verbatim>\<open>None\<close> and for the empty string. The two
  ages are parameters that the body never reads.
\<close>

definition get_expected_level :: "ustr option \<Rightarrow> int option \<Rightarrow> int \<Rightarrow> level" where
  "get_expected_level target_role target_age user_age =
    (case target_role of
       None \<Rightarrow> Polite
     | Some r \<Rightarrow>
         if r = [] then Polite
         else let target_level = dict_get ROLE_LEVELS (lower r) 1
              in if target_level \<ge> 3 then VeryPolite
                 else if target_level \<ge> 2 then Polite
                 else Informal)"

section \<open>Rule tables\<close>

text \<open>
  An entry of \<^verbatim>\<open>ENDING_PATTERNS\<close> is a regular expression of the shape
  \<^verbatim>\<open>X[.?!]?$\<close>, where \<^verbatim>\<open>X\<close> is a sequence of literal characters and character
  classes. It is kept as the list of the code points accepted at each position of
  \<^verbatim>\<open>X\<close>; the optional punctuation mark and the anchor are the same in every entry.
  The comments give the romanised syllables.
\<close>

datatype ending_pattern = EndingPattern "nat list list"

definition ENDING_PATTERNS :: "(level \<times> ending_pattern list) list" where
  "ENDING_PATTERNS =
    [(VeryPolite,
       [EndingPattern [[0xC2B5], [0xB2C8], [0xB2E4]],    \<comment> \<open>seub-ni-da\<close>
        EndingPattern [[0xC2B5], [0xB2C8], [0xAE4C]],    \<comment> \<open>seub-ni-gga\<close>
        EndingPattern [[0xC2ED], [0xB2C8], [0xB2E4]],    \<comment> \<open>sib-ni-da\<close>
        EndingPattern [[0xC2ED], [0xC2DC], [0xC624]],    \<comment> \<open>sib-si-o\<close>
        EndingPattern [[0xC635], [0xB2C8], [0xB2E4]]]    \<comment> \<open>ob-ni-da\<close>
     ),
     (Polite,
       [EndingPattern [[0xC544, 0xC5B4], [0xC694]],    \<comment> \<open>[-a-eo-]-yo\<close>
        EndingPattern [[0xC138], [0xC694]],    \<comment> \<open>se-yo\<close>
        EndingPattern [[0xC8E0]],    \<comment> \<open>jyo\<close>
        EndingPattern [[0xB124], [0xC694]],    \<comment> \<open>ne-yo\<close>
        EndingPattern [[0xAD70], [0xC694]],    \<comment> \<open>gun-yo\<close>
        EndingPattern [[0xAC70], [0xB4E0], [0xC694]]]    \<comment> \<open>geo-deun-yo\<close>
     ),
     (Informal,
       [EndingPattern [[0xC544, 0xC5B4]],    \<comment> \<open>[-a-eo-]\<close>
        EndingPattern [[0xC9C0]],    \<comment> \<open>ji\<close>
        EndingPattern [[0xB0D0]],    \<comment> \<open>nya\<close>
        EndingPattern [[0xB2C8]],    \<comment> \<open>ni\<close>
        EndingPattern [[0xC57C]],    \<comment> \<open>ya\<close>
        EndingPattern [[0xB798]]]    \<comment> \<open>rae\<close>
     )]"

text \<open>\<^verbatim>\<open>HONORIFIC_WORDS\<close>: marker word and weight, in the order of the source.\<close>

definition HONORIFIC_WORDS :: "(ustr \<times> int) list" where
  "HONORIFIC_WORDS =
    [([0xB4DC, 0xB9AC, 0xB2E4], 10),    \<comment> \<open>deu-ri-da\<close>
     ([0xC5EC, 0xCB59, 0xB2E4], 10),    \<comment> \<open>yeo-jjub-da\<close>
     ([0xC5EC, 0xCB64], 10),    \<comment> \<open>yeo-jjweo\<close>
     ([0xB9D0, 0xC500], 10),    \<comment> \<open>mal-sseum\<close>
     ([0xBD59, 0xB2E4], 10),    \<comment> \<open>boeb-da\<close>
     ([0xBD48, 0xB2E4], 10),    \<comment> \<open>boe-da\<close>
     ([0xACC4, 0xC2DC, 0xB2E4], 10),    \<comment> \<open>gye-si-da\<close>
     ([0xC8FC, 0xBB34, 0xC2DC, 0xB2E4], 10),    \<comment> \<open>ju-mu-si-da\<close>
     ([0xD639, 0xC2DC], 5),    \<comment> \<open>hog-si\<close>
     ([0xC2E4, 0xB840], 5),    \<comment> \<open>sil-rye\<close>
     ([0xC8C4, 0xC1A1], 5),    \<comment> \<open>joe-song\<close>
     ([0xAC10, 0xC0AC], 5)]"    \<comment> \<open>gam-sa\<close>

text \<open>The conversion tables of \<^verbatim>\<open>app/core/corrections.py\<close>.\<close>

definition INFORMAL_TO_POLITE :: "(ustr \<times> ustr) list" where
  "INFORMAL_TO_POLITE =
    [([0xD574], [0xD574, 0xC694]),    \<comment> \<open>hae -> hae-yo\<close>
     ([0xAC00], [0xAC00, 0xC694]),    \<comment> \<open>ga -> ga-yo\<close>
     ([0xC640], [0xC640, 0xC694]),    \<comment> \<open>wa -> wa-yo\<close>
     ([0xBD10], [0xBD10, 0xC694]),    \<comment> \<open>bwa -> bwa-yo\<close>
     ([0xC790], [0xC790, 0xC694]),    \<comment> \<open>ja -> ja-yo\<close>
     ([0xBA39, 0xC5B4], [0xBA39, 0xC5B4, 0xC694]),    \<comment> \<open>meog-eo -> meog-eo-yo\<close>
     ([0xB9C8, 0xC154], [0xB9C8, 0xC154, 0xC694]),    \<comment> \<open>ma-syeo -> ma-syeo-yo\<close>
     ([0xC788, 0xC5B4], [0xC788, 0xC5B4, 0xC694]),    \<comment> \<open>iss-eo -> iss-eo-yo\<close>
     ([0xC5C6, 0xC5B4], [0xC5C6, 0xC5B4, 0xC694]),    \<comment> \<open>eobs-eo -> eobs-eo-yo\<close>
     ([0xC54C, 0xC544], [0xC54C, 0xC544, 0xC694]),    \<comment> \<open>al-a -> al-a-yo\<close>
     ([0xBAB0, 0xB77C], [0xBAB0, 0xB77C, 0xC694]),    \<comment> \<open>mol-ra -> mol-ra-yo\<close>
     ([0xC88B, 0xC544], [0xC88B, 0xC544, 0xC694]),    \<comment> \<open>joh-a -> joh-a-yo\<close>
     ([0xC2EB, 0xC5B4], [0xC2EB, 0xC5B4, 0xC694]),    \<comment> \<open>silh-eo -> silh-eo-yo\<close>
     ([0xD588, 0xC5B4], [0xD588, 0xC5B4, 0xC694]),    \<comment> \<open>haess-eo -> haess-eo-yo\<close>
     ([0xAC14, 0xC5B4], [0xAC14, 0xC5B4, 0xC694]),    \<comment> \<open>gass-eo -> gass-eo-yo\<close>
     ([0xC654, 0xC5B4], [0xC654, 0xC5B4, 0xC694]),    \<comment> \<open>wass-eo -> wass-eo-yo\<close>
     ([0xBD24, 0xC5B4], [0xBD24, 0xC5B4, 0xC694]),    \<comment> \<open>bwass-eo -> bwass-eo-yo\<close>
     ([0xBA39, 0xC5C8, 0xC5B4], [0xBA39, 0xC5C8, 0xC5B4, 0xC694]),    \<comment> \<open>meog-eoss-eo -> meog-eoss-eo-yo\<close>
     ([0xB9C8, 0xC168, 0xC5B4], [0xB9C8, 0xC168, 0xC5B4, 0xC694]),    \<comment> \<open>ma-syeoss-eo -> ma-syeoss-eo-yo\<close>
     ([0xBB50, 0xD574], [0xBB50, 0x20, 0xD574, 0xC694]),    \<comment> \<open>mweo-hae -> mweo hae-yo\<close>
     ([0xC5B4, 0xB514, 0xAC00], [0xC5B4, 0xB514, 0x20, 0xAC00, 0xC694]),    \<comment> \<open>eo-di-ga -> eo-di ga-yo\<close>
     ([0xC65C], [0xC65C, 0xC694]),    \<comment> \<open>wae -> wae-yo\<close>
     ([0xBB50, 0xC57C], [0xBB50, 0xC608, 0xC694]),    \<comment> \<open>mweo-ya -> mweo-ye-yo\<close>
     ([0xB204, 0xAD6C, 0xC57C], [0xB204, 0xAD6C, 0xC608, 0xC694]),    \<comment> \<open>nu-gu-ya -> nu-gu-ye-yo\<close>
     ([0xD574, 0xC918], [0xD574, 0x20, 0xC8FC, 0xC138, 0xC694]),    \<comment> \<open>hae-jweo -> hae ju-se-yo\<close>
     ([0xAC00, 0xC918], [0xAC00, 0x20, 0xC8FC, 0xC138, 0xC694]),    \<comment> \<open>ga-jweo -> ga ju-se-yo\<close>
     ([0xC640, 0xC918], [0xC640, 0x20, 0xC8FC, 0xC138, 0xC694]),    \<comment> \<open>wa-jweo -> wa ju-se-yo\<close>
     ([0xB3C4, 0xC640, 0xC918], [0xB3C4, 0xC640, 0xC8FC, 0xC138, 0xC694])]"    \<comment> \<open>do-wa-jweo -> do-wa-ju-se-yo\<close>

definition POLITE_TO_FORMAL :: "(ustr \<times> ustr) list" where
  "POLITE_TO_FORMAL =
    [([0xD574, 0xC694], [0xD569, 0xB2C8, 0xB2E4]),    \<comment> \<open>hae-yo -> hab-ni-da\<close>
     ([0xAC00, 0xC694], [0xAC11, 0xB2C8, 0xB2E4]),    \<comment> \<open>ga-yo -> gab-ni-da\<close>
     ([0xC640, 0xC694], [0xC635, 0xB2C8, 0xB2E4]),    \<comment> \<open>wa-yo -> ob-ni-da\<close>
     ([0xBD10, 0xC694], [0xBD05, 0xB2C8, 0xB2E4]),    \<comment> \<open>bwa-yo -> bob-ni-da\<close>
     ([0xBA39, 0xC5B4, 0xC694], [0xBA39, 0xC2B5, 0xB2C8, 0xB2E4]),    \<comment> \<open>meog-eo-yo -> meog-seub-ni-da\<close>
     ([0xB9C8, 0xC154, 0xC694], [0xB9C8, 0xC2ED, 0xB2C8, 0xB2E4]),    \<comment> \<open>ma-syeo-yo -> ma-sib-ni-da\<close>
     ([0xC788, 0xC5B4, 0xC694], [0xC788, 0xC2B5, 0xB2C8, 0xB2E4]),    \<comment> \<open>iss-eo-yo -> iss-seub-ni-da\<close>
     ([0xC5C6, 0xC5B4, 0xC694], [0xC5C6, 0xC2B5, 0xB2C8, 0xB2E4]),    \<comment> \<open>eobs-eo-yo -> eobs-seub-ni-da\<close>
     ([0xC54C, 0xC544, 0xC694], [0xC555, 0xB2C8, 0xB2E4]),    \<comment> \<open>al-a-yo -> ab-ni-da\<close>
     ([0xBAB0, 0xB77C, 0xC694], [0xBAA8, 0xB985, 0xB2C8, 0xB2E4]),    \<comment> \<open>mol-ra-yo -> mo-reub-ni-da\<close>
     ([0xC88B, 0xC544, 0xC694], [0xC88B, 0xC2B5, 0xB2C8, 0xB2E4]),    \<comment> \<open>joh-a-yo -> joh-seub-ni-da\<close>
     ([0xC2EB, 0xC5B4, 0xC694], [0xC2EB, 0xC2B5, 0xB2C8, 0xB2E4]),    \<comment> \<open>silh-eo-yo -> silh-seub-ni-da\<close>
     ([0xD588, 0xC5B4, 0xC694], [0xD588, 0xC2B5, 0xB2C8, 0xB2E4]),    \<comment> \<open>haess-eo-yo -> haess-seub-ni-da\<close>
     ([0xAC14, 0xC5B4, 0xC694], [0xAC14, 0xC2B5, 0xB2C8, 0xB2E4]),    \<comment> \<open>gass-eo-yo -> gass-seub-ni-da\<close>
     ([0xC654, 0xC5B4, 0xC694], [0xC654, 0xC2B5, 0xB2C8, 0xB2E4]),    \<comment> \<open>wass-eo-yo -> wass-seub-ni-da\<close>
     ([0xBD24, 0xC5B4, 0xC694], [0xBD24, 0xC2B5, 0xB2C8, 0xB2E4]),    \<comment> \<open>bwass-eo-yo -> bwass-seub-ni-da\<close>
     ([0xBA39, 0xC5C8, 0xC5B4, 0xC694], [0xBA39, 0xC5C8, 0xC2B5, 0xB2C8, 0xB2E4]),    \<comment> \<open>meog-eoss-eo-yo -> meog-eoss-seub-ni-da\<close>
     ([0xB9C8, 0xC168, 0xC5B4, 0xC694], [0xB9C8, 0xC168, 0xC2B5, 0xB2C8, 0xB2E4]),    \<comment> \<open>ma-syeoss-eo-yo -> ma-syeoss-seub-ni-da\<close>
     ([0xBB50, 0x20, 0xD574, 0xC694], [0xBB34, 0xC5C7, 0xC744, 0x20, 0xD558, 0xC2ED, 0xB2C8, 0xAE4C]),    \<comment> \<open>mweo hae-yo -> mu-eos-eul ha-sib-ni-gga\<close>
     ([0xC5B4, 0xB514, 0x20, 0xAC00, 0xC694], [0xC5B4, 0xB514, 0x20, 0xAC00, 0xC2ED, 0xB2C8, 0xAE4C]),    \<comment> \<open>eo-di ga-yo -> eo-di ga-sib-ni-gga\<close>
     ([0xBB50, 0xC608, 0xC694], [0xBB34, 0xC5C7, 0xC785, 0xB2C8, 0xAE4C]),    \<comment> \<open>mweo-ye-yo -> mu-eos-ib-ni-gga\<close>
     ([0xC788, 0xC5B4, 0xC694, 0x3F], [0xC788, 0xC2B5, 0xB2C8, 0xAE4C, 0x3F]),    \<comment> \<open>iss-eo-yo-? -> iss-seub-ni-gga-?\<close>
     ([0xC5C6, 0xC5B4, 0xC694, 0x3F], [0xC5C6, 0xC2B5, 0xB2C8, 0xAE4C, 0x3F]),    \<comment> \<open>eobs-eo-yo-? -> eobs-seub-ni-gga-?\<close>
     ([0xD574, 0x20, 0xC8FC, 0xC138, 0xC694], [0xD574, 0x20, 0xC8FC, 0xC2ED, 0xC2DC, 0xC624]),    \<comment> \<open>hae ju-se-yo -> hae ju-sib-si-o\<close>
     ([0xAC00, 0x20, 0xC8FC, 0xC138, 0xC694], [0xAC00, 0x20, 0xC8FC, 0xC2ED, 0xC2DC, 0xC624]),    \<comment> \<open>ga ju-se-yo -> ga ju-sib-si-o\<close>
     ([0xB3C4, 0xC640, 0xC8FC, 0xC138, 0xC694], [0xB3C4, 0xC640, 0xC8FC, 0xC2ED, 0xC2DC, 0xC624]),    \<comment> \<open>do-wa-ju-se-yo -> do-wa-ju-sib-si-o\<close>
     ([0xC54C, 0xB824, 0xC8FC, 0xC138, 0xC694], [0xC54C, 0xB824, 0xC8FC, 0xC2ED, 0xC2DC, 0xC624])]"    \<comment> \<open>al-ryeo-ju-se-yo -> al-ryeo-ju-sib-si-o\<close>

definition INFORMAL_TO_FORMAL :: "(ustr \<times> ustr) list" where
  "INFORMAL_TO_FORMAL =
    [([0xD574], [0xD569, 0xB2C8, 0xB2E4]),    \<comment> \<open>hae -> hab-ni-da\<close>
     ([0xAC00], [0xAC11, 0xB2C8, 0xB2E4]),    \<comment> \<open>ga -> gab-ni-da\<close>
     ([0xC640], [0xC635, 0xB2C8, 0xB2E4]),    \<comment> \<open>wa -> ob-ni-da\<close>
     ([0xBA39, 0xC5B4], [0xBA39, 0xC2B5, 0xB2C8, 0xB2E4]),    \<comment> \<open>meog-eo -> meog-seub-ni-da\<close>
     ([0xB9C8, 0xC154], [0xB9C8, 0xC2ED, 0xB2C8, 0xB2E4]),    \<comment> \<open>ma-syeo -> ma-sib-ni-da\<close>
     ([0xC788, 0xC5B4], [0xC788, 0xC2B5, 0xB2C8, 0xB2E4]),    \<comment> \<open>iss-eo -> iss-seub-ni-da\<close>
     ([0xC5C6, 0xC5B4], [0xC5C6, 0xC2B5, 0xB2C8, 0xB2E4]),    \<comment> \<open>eobs-eo -> eobs-seub-ni-da\<close>
     ([0xC54C, 0xC544], [0xC555, 0xB2C8, 0xB2E4]),    \<comment> \<open>al-a -> ab-ni-da\<close>
     ([0xBAB0, 0xB77C], [0xBAA8, 0xB985, 0xB2C8, 0xB2E4]),    \<comment> \<open>mol-ra -> mo-reub-ni-da\<close>
     ([0xD588, 0xC5B4], [0xD588, 0xC2B5, 0xB2C8, 0xB2E4]),    \<comment> \<open>haess-eo -> haess-seub-ni-da\<close>
     ([0xAC14, 0xC5B4], [0xAC14, 0xC2B5, 0xB2C8, 0xB2E4]),    \<comment> \<open>gass-eo -> gass-seub-ni-da\<close>
     ([0xC654, 0xC5B4], [0xC654, 0xC2B5, 0xB2C8, 0xB2E4]),    \<comment> \<open>wass-eo -> wass-seub-ni-da\<close>
     ([0xBB50, 0xD574], [0xBB34, 0xC5C7, 0xC744, 0x20, 0xD558, 0xC2ED, 0xB2C8, 0xAE4C]),    \<comment> \<open>mweo-hae -> mu-eos-eul ha-sib-ni-gga\<close>
     ([0xD574, 0xC918], [0xD574, 0x20, 0xC8FC, 0xC2ED, 0xC2DC, 0xC624])]"    \<comment> \<open>hae-jweo -> hae ju-sib-si-o\<close>

text \<open>
  \<^verbatim>\<open>ERROR_CATEGORIES\<close>. The engine reads the two names and the severity of an entry;
  its description and example strings are never read and are left out.
\<close>

record ErrorCategory =
  name_ko_cat :: ustr
  name_en_cat :: ustr
  severity_cat :: ustr

definition ERROR_CATEGORIES :: "(ustr \<times> ErrorCategory) list" where
  "ERROR_CATEGORIES =
    [(str ''ending_mismatch'', 
      \<lparr>name_ko_cat = [0xC5B4, 0xBBF8, 0x20, 0xBD88, 0xC77C, 0xCE58],
        name_en_cat = str ''Ending Mismatch'', severity_cat = str ''high''\<rparr>),    \<comment> \<open>eo-mi bul-il-ci\<close>
     (str ''honorific_missing'', 
      \<lparr>name_ko_cat = [0xB192, 0xC784, 0x20, 0xD45C, 0xD604, 0x20, 0xB204, 0xB77D],
        name_en_cat = str ''Missing Honorific'', severity_cat = str ''high''\<rparr>),    \<comment> \<open>nop-im pyo-hyeon nu-rag\<close>
     (str ''formality_mixed'', 
      \<lparr>name_ko_cat = [0xACA9, 0xC2DD, 0x20, 0xD63C, 0xC6A9],
        name_en_cat = str ''Mixed Formality'', severity_cat = str ''medium''\<rparr>),    \<comment> \<open>gyeog-sig hon-yong\<close>
     (str ''word_choice'', 
      \<lparr>name_ko_cat = [0xB2E8, 0xC5B4, 0x20, 0xC120, 0xD0DD],
        name_en_cat = str ''Word Choice'', severity_cat = str ''low''\<rparr>),    \<comment> \<open>dan-eo seon-taeg\<close>
     (str ''subject_marker'', 
      \<lparr>name_ko_cat = [0xC8FC, 0xACA9, 0x20, 0xC870, 0xC0AC],
        name_en_cat = str ''Subject Marker'', severity_cat = str ''low''\<rparr>),    \<comment> \<open>ju-gyeog jo-sa\<close>
     (str ''tone_inappropriate'', 
      \<lparr>name_ko_cat = [0xC5B4, 0xC870, 0x20, 0xBD80, 0xC801, 0xC808],
        name_en_cat = str ''Inappropriate Tone'', severity_cat = str ''medium''\<rparr>)]"    \<comment> \<open>eo-jo bu-jeog-jeol\<close>

text \<open>The marker lists of \<^verbatim>\<open>_build_word_level_map\<close>.\<close>

definition informal_markers :: "ustr list" where
  "informal_markers =
    [[0xD574],    \<comment> \<open>hae\<close>
     [0xAC00],    \<comment> \<open>ga\<close>
     [0xC640],    \<comment> \<open>wa\<close>
     [0xBA39, 0xC5B4],    \<comment> \<open>meog-eo\<close>
     [0xC788, 0xC5B4],    \<comment> \<open>iss-eo\<close>
     [0xC5C6, 0xC5B4],    \<comment> \<open>eobs-eo\<close>
     [0xD588, 0xC5B4],    \<comment> \<open>haess-eo\<close>
     [0xBB50, 0xD574],    \<comment> \<open>mweo-hae\<close>
     [0xD574, 0xC918]]"    \<comment> \<open>hae-jweo\<close>

definition polite_markers :: "ustr list" where
  "polite_markers =
    [[0xD574, 0xC694],    \<comment> \<open>hae-yo\<close>
     [0xAC00, 0xC694],    \<comment> \<open>ga-yo\<close>
     [0xC640, 0xC694],    \<comment> \<open>wa-yo\<close>
     [0xBA39, 0xC5B4, 0xC694],    \<comment> \<open>meog-eo-yo\<close>
     [0xC788, 0xC5B4, 0xC694],    \<comment> \<open>iss-eo-yo\<close>
     [0xC5C6, 0xC5B4, 0xC694],    \<comment> \<open>eobs-eo-yo\<close>
     [0xD588, 0xC5B4, 0xC694],    \<comment> \<open>haess-eo-yo\<close>
     [0xC8FC, 0xC138, 0xC694]]"    \<comment> \<open>ju-se-yo\<close>

definition formal_markers :: "ustr list" where
  "formal_markers =
    [[0xD569, 0xB2C8, 0xB2E4],    \<comment> \<open>hab-ni-da\<close>
     [0xAC11, 0xB2C8, 0xB2E4],    \<comment> \<open>gab-ni-da\<close>
     [0xC635, 0xB2C8, 0xB2E4],    \<comment> \<open>ob-ni-da\<close>
     [0xC788, 0xC2B5, 0xB2C8, 0xB2E4],    \<comment> \<open>iss-seub-ni-da\<close>
     [0xC5C6, 0xC2B5, 0xB2C8, 0xB2E4],    \<comment> \<open>eobs-seub-ni-da\<close>
     [0xD588, 0xC2B5, 0xB2C8, 0xB2E4],    \<comment> \<open>haess-seub-ni-da\<close>
     [0xC8FC, 0xC2ED, 0xC2DC, 0xC624]]"    \<comment> \<open>ju-sib-si-o\<close>

section \<open>Text helpers\<close>

text \<open>The code points for which \<^verbatim>\<open>str.isspace()\<close> holds; \<^verbatim>\<open>str.strip()\<close> removes
  them from both ends.\<close>

definition is_space :: "nat \<Rightarrow> bool" where
  "is_space c =
    ((0x09 \<le> c \<and> c \<le> 0x0D) \<or> (0x1C \<le> c \<and> c \<le> 0x20) \<or> c = 0x85 \<or> c = 0xA0
     \<or> c = 0x1680 \<or> (0x2000 \<le> c \<and> c \<le> 0x200A) \<or> c = 0x2028 \<or> c = 0x2029
     \<or> c = 0x202F \<or> c = 0x205F \<or> c = 0x3000)"

definition strip :: "ustr \<Rightarrow> ustr" where
  "strip s = rev (dropWhile is_space (rev (dropWhile is_space s)))"

text \<open>\<^verbatim>\<open>s.startswith(sub)\<close> and \<^verbatim>\<open>sub in s\<close>.\<close>

fun startswith :: "ustr \<Rightarrow> ustr \<Rightarrow> bool" where
  "startswith s [] = True"
| "startswith [] (p # ps) = False"
| "startswith (x # xs) (p # ps) = (x = p \<and> startswith xs ps)"

fun contains :: "ustr \<Rightarrow> ustr \<Rightarrow> bool" where
  "contains [] sub = (sub = [])"
| "contains (x # xs) sub = (startswith (x # xs) sub \<or> contains xs sub)"

text \<open>
  \<^verbatim>\<open>text.find(sub, start)\<close>: the lowest index at or after \<open>start\<close> where \<open>sub\<close>
  occurs, or -1. A negative \<open>start\<close> counts from the end of the text.
\<close>

fun find_in :: "ustr \<Rightarrow> ustr \<Rightarrow> nat \<Rightarrow> int" where
  "find_in [] sub i = (if sub = [] then int i else - 1)"
| "find_in (x # xs) sub i = (if startswith (x # xs) sub then int i else find_in xs sub (Suc i))"

definition py_find :: "ustr \<Rightarrow> ustr \<Rightarrow> int \<Rightarrow> int" where
  "py_find text sub start =
    (let s = (if start < 0 then max 0 (start + int (length text)) else start)
     in if s > int (length text) then - 1 else find_in (drop (nat s) text) sub (nat s))"

text \<open>
  \<^verbatim>\<open>pattern.search(word)\<close> for an ending pattern. After the positions of the pattern
  comes at most one of the marks \<^verbatim>\<open>. ? !\<close> and then \<^verbatim>\<open>$\<close>, which matches at the end
  of the string and before a line feed that ends the string. The search succeeds when
  the pattern matches at some start position.
\<close>

fun match_classes :: "nat list list \<Rightarrow> ustr \<Rightarrow> ustr option" where
  "match_classes [] s = Some s"
| "match_classes (c # cs) [] = None"
| "match_classes (c # cs) (x # xs) = (if x \<in> set c then match_classes cs xs else None)"

definition at_end :: "ustr \<Rightarrow> bool" where
  "at_end s = (s = [] \<or> s = [0x0A])"

definition match_at :: "ending_pattern \<Rightarrow> ustr \<Rightarrow> bool" where
  "match_at p s =
    (case p of EndingPattern cs \<Rightarrow>
      (case match_classes cs s of
         None \<Rightarrow> False
       | Some rest \<Rightarrow>
           at_end rest \<or>
           (case rest of [] \<Rightarrow> False
            | c # rest' \<Rightarrow> c \<in> set [0x2E, 0x3F, 0x21] \<and> at_end rest')))"

fun pattern_search :: "ending_pattern \<Rightarrow> ustr \<Rightarrow> bool" where
  "pattern_search p [] = match_at p []"
| "pattern_search p (x # xs) = (match_at p (x # xs) \<or> pattern_search p xs)"

section \<open>The enhanced (word-level) service\<close>

record WordAnalysis =
  word :: ustr
  position_start :: int
  position_end :: int
  current_level :: level
  expected_level :: "level option"
  is_correct :: bool
  suggestion :: "ustr option"
  error_type :: "ustr option"

record Correction =
  original :: ustr
  corrected :: ustr
  reason_ko :: ustr
  reason_en :: ustr
  position_start_c :: int
  position_end_c :: int

record ErrorDetail =
  error_type_e :: ustr
  name_ko :: ustr
  name_en :: ustr
  severity :: ustr
  count :: nat
  examples :: "ustr list"

text \<open>The dictionary \<^verbatim>\<open>level_breakdown\<close> with its four keys. A ratio is a Python float
  with at most two decimals; it is modelled by the rational number it denotes.\<close>

record LevelBreakdown =
  informal :: rat
  polite :: rat
  very_polite :: rat
  honorific :: rat

text \<open>\<^verbatim>\<open>_build_word_level_map\<close>: later assignments overwrite earlier ones.\<close>

definition build_word_level_map :: "ustr \<rightharpoonup> level" where
  "build_word_level_map =
    (let m = Map.empty;
         m = foldl (\<lambda>m w. m(w \<mapsto> Informal)) m informal_markers;
         m = foldl (\<lambda>m w. m(w \<mapsto> Polite)) m polite_markers;
         m = foldl (\<lambda>m w. m(w \<mapsto> VeryPolite)) m formal_markers;
         m = foldl (\<lambda>m w. m(w \<mapsto> Honorific)) m (map fst HONORIFIC_WORDS)
     in m)"

text \<open>\<^verbatim>\<open>_detect_word_level\<close>. The compiled patterns are visited in the insertion order
  of \<^verbatim>\<open>ENDING_PATTERNS\<close>.\<close>

definition detect_word_level :: "ustr \<Rightarrow> level" where
  "detect_word_level w =
    (case build_word_level_map w of
       Some l \<Rightarrow> l
     | None \<Rightarrow>
        (case find (\<lambda>(l, patterns). list_ex (\<lambda>p. pattern_search p w) patterns) ENDING_PATTERNS of
           Some (l, patterns) \<Rightarrow> l
         | None \<Rightarrow>
             if list_ex (\<lambda>hon_word. contains w hon_word) (map fst HONORIFIC_WORDS)
             then Honorific else Neutral))"

text \<open>The dictionary \<^verbatim>\<open>level_order\<close>, read with \<^verbatim>\<open>level_order.get(x, 1)\<close>.\<close>

definition level_order :: "(level \<times> int) list" where
  "level_order = [(Informal, 0), (Polite, 1), (VeryPolite, 2)]"

text \<open>\<^verbatim>\<open>_is_word_correct\<close>.\<close>

definition is_word_correct :: "level \<Rightarrow> level \<Rightarrow> bool" where
  "is_word_correct current expected =
    (if current = Neutral then True
     else if current = Honorific then True
     else let current_val = dict_get level_order current 1;
              expected_val = dict_get level_order expected 1
          in current_val \<ge> expected_val)"

text \<open>\<^verbatim>\<open>_get_suggestion\<close>.\<close>

definition get_suggestion :: "ustr \<Rightarrow> level \<Rightarrow> level \<Rightarrow> ustr option" where
  "get_suggestion w current expected =
    (if current = Informal \<and> expected = Polite then map_of INFORMAL_TO_POLITE w
     else if current = Informal \<and> expected = VeryPolite then map_of INFORMAL_TO_FORMAL w
     else if current = Polite \<and> expected = VeryPolite then map_of POLITE_TO_FORMAL w
     else None)"

text \<open>\<^verbatim>\<open>_get_error_type\<close>.\<close>

definition get_error_type :: "level \<Rightarrow> level \<Rightarrow> ustr" where
  "get_error_type current expected =
    (if current \<in> set [Informal, Polite, VeryPolite] then str ''ending_mismatch''
     else str ''tone_inappropriate'')"

text \<open>
  \<^verbatim>\<open>_analyze_words\<close>. The argument \<open>words\<close> is the token list that
  \<^verbatim>\<open>self._tokenize(text)\<close> returns; the loop carries \<open>position\<close>.
\<close>

fun analyze_words_loop :: "ustr \<Rightarrow> level \<Rightarrow> ustr list \<Rightarrow> int \<Rightarrow> WordAnalysis list" where
  "analyze_words_loop text expected [] position = []"
| "analyze_words_loop text expected (w # ws) position =
    (let word_clean = strip w
     in if word_clean = [] then analyze_words_loop text expected ws position
        else
          let start = py_find text word_clean position;
              end = start + int (length word_clean);
              current = detect_word_level word_clean;
              correct = is_word_correct current expected;
              wrong = (\<not> correct \<and> current \<noteq> Neutral)
          in \<lparr>word = word_clean,
              position_start = start,
              position_end = end,
              current_level = current,
              expected_level = (if current \<noteq> Neutral then Some expected else None),
              is_correct = correct,
              suggestion = (if wrong then get_suggestion word_clean current expected else None),
              error_type = (if wrong then Some (get_error_type current expected) else None)\<rparr>
             # analyze_words_loop text expected ws end)"

definition analyze_words :: "ustr \<Rightarrow> ustr list \<Rightarrow> level \<Rightarrow> WordAnalysis list" where
  "analyze_words text words expected = analyze_words_loop text expected words 0"

text \<open>
  \<^verbatim>\<open>round(x, 2)\<close> on the quotient of two counts, as the decimal it returns. Python
  divides and rounds in binary floating point. For counts below \<open>2 ^ 45\<close> the result is
  the nearest multiple of 0.01 to the exact quotient whenever that is unique; when the
  exact quotient lies halfway between two multiples, the direction depends on the
  representation error of the float (\<^verbatim>\<open>round(1/200, 2)\<close> is 0.01 and
  \<^verbatim>\<open>round(41/200, 2)\<close> is 0.2). That direction is the parameter \<open>tie_up\<close>.
\<close>

definition round2 :: "(rat \<Rightarrow> bool) \<Rightarrow> rat \<Rightarrow> rat" where
  "round2 tie_up x =
    (let k = \<lfloor>100 * x\<rfloor>; r = 100 * x - of_int k
     in (if r < 1 / 2 then of_int k
         else if r > 1 / 2 then of_int (k + 1)
         else if tie_up x then of_int (k + 1) else of_int k) / 100)"

text \<open>\<^verbatim>\<open>_calculate_level_breakdown\<close>.\<close>

definition level_count :: "WordAnalysis list \<Rightarrow> level \<Rightarrow> nat" where
  "level_count analyses l = length (filter (\<lambda>a. current_level a = l) analyses)"

definition calculate_level_breakdown :: "(rat \<Rightarrow> bool) \<Rightarrow> WordAnalysis list \<Rightarrow> LevelBreakdown" where
  "calculate_level_breakdown tie_up analyses =
    (let counts = level_count analyses;
         total = counts Informal + counts Polite + counts VeryPolite + counts Honorific
     in if total = 0
        then \<lparr>informal = 0, polite = 0, very_polite = 0, honorific = 0\<rparr>
        else \<lparr>informal = round2 tie_up (of_nat (counts Informal) / of_nat total),
              polite = round2 tie_up (of_nat (counts Polite) / of_nat total),
              very_polite = round2 tie_up (of_nat (counts VeryPolite) / of_nat total),
              honorific = round2 tie_up (of_nat (counts Honorific) / of_nat total)\<rparr>)"

text \<open>\<^verbatim>\<open>breakdown.items()\<close>, in the insertion order of the dictionary.\<close>

definition breakdown_items :: "LevelBreakdown \<Rightarrow> (level \<times> rat) list" where
  "breakdown_items breakdown =
    [(Informal, informal breakdown), (Polite, polite breakdown),
     (VeryPolite, very_polite breakdown), (Honorific, honorific breakdown)]"

text \<open>\<^verbatim>\<open>EnhancedPolitenessService._get_dominant_level\<close>.\<close>

definition get_dominant_level_enhanced :: "LevelBreakdown \<Rightarrow> level" where
  "get_dominant_level_enhanced breakdown =
    (let non_zero = map fst (filter (\<lambda>(l, v). v > 0 \<and> l \<noteq> Honorific) (breakdown_items breakdown));
         values = map (\<lambda>l. dict_get (breakdown_items breakdown) l 0) non_zero
     in if length non_zero > 1 \<and> Min (set values) > 2 / 10 then Mixed
        else if very_polite breakdown > 0 then VeryPolite
        else if polite breakdown > 0 then Polite
        else if informal breakdown > 0 then Informal
        else Polite)"

text \<open>\<^verbatim>\<open>_get_correction_reason\<close>; the Korean reasons are given by their code points.\<close>

definition get_correction_reason :: "level \<Rightarrow> level \<Rightarrow> ustr \<times> ustr" where
  "get_correction_reason current expected =
    dict_get
      [((Informal, Polite),
        ([0xBC18, 0xB9D0, 0x20, 0xB300, 0xC2E0, 0x20, 0xC874, 0xB313, 0xB9D0, 0x28, 0x2D, 0xC694,
          0x29, 0xC744, 0x20, 0xC0AC, 0xC6A9, 0xD558, 0xC138, 0xC694],
         str ''Use polite speech (-'' @ [0xC694] @ str '') instead of informal'')),
       ((Informal, VeryPolite),
        ([0xBC18, 0xB9D0, 0x20, 0xB300, 0xC2E0, 0x20, 0xACA9, 0xC2DD, 0xCCB4, 0x28, 0x2D, 0xC2B5,
          0xB2C8, 0xB2E4, 0x29, 0xB97C, 0x20, 0xC0AC, 0xC6A9, 0xD558, 0xC138, 0xC694],
         str ''Use formal speech (-'' @ [0xC2B5, 0xB2C8, 0xB2E4] @ str '') instead of informal'')),
       ((Polite, VeryPolite),
        ([0xC874, 0xB313, 0xB9D0, 0x20, 0xB300, 0xC2E0, 0x20, 0xACA9, 0xC2DD, 0xCCB4, 0x28, 0x2D,
          0xC2B5, 0xB2C8, 0xB2E4, 0x29, 0xB97C, 0x20, 0xC0AC, 0xC6A9, 0xD558, 0xC138, 0xC694],
         str ''Use formal speech (-'' @ [0xC2B5, 0xB2C8, 0xB2E4] @ str '') instead of polite''))]
      (current, expected) ([], [])"

text \<open>\<^verbatim>\<open>_generate_corrections\<close>. \<^verbatim>\<open>a.suggestion\<close> is tested for truth: \<^verbatim>\<open>None\<close> and
  the empty string fail the test.\<close>

definition truthy :: "ustr option \<Rightarrow> bool" where
  "truthy s = (case s of None \<Rightarrow> False | Some v \<Rightarrow> v \<noteq> [])"

definition generate_corrections :: "ustr \<Rightarrow> WordAnalysis list \<Rightarrow> level \<Rightarrow> Correction list" where
  "generate_corrections text analyses expected =
    map (\<lambda>a. \<lparr>original = word a,
                corrected = the (suggestion a),
                reason_ko = fst (get_correction_reason (current_level a) expected),
                reason_en = snd (get_correction_reason (current_level a) expected),
                position_start_c = position_start a,
                position_end_c = position_end a\<rparr>)
        (filter (\<lambda>a. \<not> is_correct a \<and> truthy (suggestion a)) analyses)"

text \<open>
  \<^verbatim>\<open>_categorize_errors\<close>. The dictionary \<^verbatim>\<open>error_counts\<close> keeps its keys in the order
  of their first insertion, so it is an association list; \<^verbatim>\<open>list.sort\<close> is stable, as
  \<open>sort_key\<close> is.
\<close>

fun add_example :: "(ustr \<times> ustr list) list \<Rightarrow> ustr \<Rightarrow> ustr \<Rightarrow> (ustr \<times> ustr list) list" where
  "add_example [] k e = [(k, [e])]"
| "add_example ((k', es) # d) k e =
    (if k' = k then (k', es @ [e]) # d else (k', es) # add_example d k e)"

definition example_string :: "WordAnalysis \<Rightarrow> ustr" where
  "example_string a =
    word a @ [0x20, 0x2192, 0x20] @ (if truthy (suggestion a) then the (suggestion a) else str ''?'')"

definition error_counts :: "WordAnalysis list \<Rightarrow> (ustr \<times> ustr list) list" where
  "error_counts analyses =
    foldl (\<lambda>d a. if truthy (error_type a) then add_example d (the (error_type a)) (example_string a)
                  else d)
      [] analyses"

definition error_detail :: "ustr \<times> ustr list \<Rightarrow> ErrorDetail" where
  "error_detail kv =
    (case kv of (et, exs) \<Rightarrow>
      (case map_of ERROR_CATEGORIES et of
         None \<Rightarrow>
           \<lparr>error_type_e = et, name_ko = et, name_en = et, severity = str ''medium'',
            count = length exs, examples = take 3 exs\<rparr>
       | Some info \<Rightarrow>
           \<lparr>error_type_e = et, name_ko = name_ko_cat info, name_en = name_en_cat info,
            severity = severity_cat info, count = length exs, examples = take 3 exs\<rparr>))"

definition severity_order :: "(ustr \<times> int) list" where
  "severity_order = [(str ''high'', 0), (str ''medium'', 1), (str ''low'', 2)]"

definition categorize_errors :: "WordAnalysis list \<Rightarrow> ErrorDetail list" where
  "categorize_errors analyses =
    sort_key (\<lambda>e. dict_get severity_order (severity e) 1)
      (map error_detail (error_counts analyses))"

text \<open>\<^verbatim>\<open>EnhancedPolitenessService._calculate_score\<close>.\<close>

definition calculate_score :: "level \<Rightarrow> level \<Rightarrow> LevelBreakdown \<Rightarrow> int \<Rightarrow> int" where
  "calculate_score dominant expected breakdown error_count =
    (let base_score = 50;
         dominant_val = dict_get level_order dominant 1;
         expected_val = dict_get level_order expected 1;
         base_score =
           (if dominant_val \<ge> expected_val then base_score + 30
            else if dominant_val = expected_val - 1 then base_score + 10
            else base_score - 10);
         max_ratio = max (max (informal breakdown) (polite breakdown)) (very_polite breakdown);
         base_score =
           (if max_ratio > 8 / 10 then base_score + 15
            else if max_ratio < 5 / 10 then base_score - 10
            else base_score);
         base_score = base_score - min (error_count * 5) 20;
         base_score = (if honorific breakdown > 0 then base_score + 5 else base_score)
     in max 0 (min 100 base_score))"

text \<open>\<^verbatim>\<open>EnhancedPolitenessService._check_appropriateness\<close>.\<close>

definition check_appropriateness :: "level \<Rightarrow> level \<Rightarrow> bool" where
  "check_appropriateness actual expected =
    (if actual = Mixed then False
     else dict_get level_order actual 1 \<ge> dict_get level_order expected 1)"

text \<open>
  \<^verbatim>\<open>EnhancedPolitenessService.analyze\<close>, with the token list of the text as the argument
  \<open>words\<close>. The localized level names, the feedback strings and the \<^verbatim>\<open>details\<close>
  dictionary of the result are presentation and are left out.
\<close>

record EnhancedPolitenessResult =
  level :: level
  score :: int
  is_appropriate :: bool
  level_breakdown :: LevelBreakdown
  word_analysis :: "WordAnalysis list"
  corrections :: "Correction list"
  errors :: "ErrorDetail list"
  recommended_level :: "level option"

definition analyze ::
  "(rat \<Rightarrow> bool) \<Rightarrow> ustr \<Rightarrow> ustr list \<Rightarrow> ustr option \<Rightarrow> int option \<Rightarrow> int
    \<Rightarrow> EnhancedPolitenessResult" where
  "analyze tie_up text words target_role target_age user_age =
    (let expected = get_expected_level target_role target_age user_age;
         word_analyses = analyze_words text words expected;
         breakdown = calculate_level_breakdown tie_up word_analyses;
         dominant_level = get_dominant_level_enhanced breakdown;
         corrs = generate_corrections text word_analyses expected;
         errs = categorize_errors word_analyses
     in \<lparr>level = dominant_level,
         score = calculate_score dominant_level expected breakdown (int (length errs)),
         is_appropriate = check_appropriateness dominant_level expected,
         level_breakdown = breakdown,
         word_analysis = word_analyses,
         corrections = corrs,
         errors = errs,
         recommended_level = Some expected\<rparr>)"

section \<open>The sentence-level service\<close>

text \<open>The honorific score of \<^verbatim>\<open>PolitenessService.analyze\<close>: the weights of the marker
  words that occur in the text, each counted once.\<close>

definition text_honorific_score :: "ustr \<Rightarrow> int" where
  "text_honorific_score text =
    foldl (\<lambda>score (w, points). if contains text w then score + points else score)
      0 HONORIFIC_WORDS"

text \<open>The dictionary \<^verbatim>\<open>level_counts\<close> with its three keys.\<close>

record LevelCounts =
  very_polite_count :: nat
  polite_count :: nat
  informal_count :: nat

text \<open>\<^verbatim>\<open>PolitenessService._get_dominant_level\<close>.\<close>

definition get_dominant_level :: "LevelCounts \<Rightarrow> int \<Rightarrow> level" where
  "get_dominant_level level_counts honorific_score =
    (if honorific_score \<ge> 15 then VeryPolite
     else if very_polite_count level_counts > 0 then VeryPolite
     else if polite_count level_counts > informal_count level_counts then Polite
     else if informal_count level_counts > 0 then Informal
     else Polite)"

section \<open>Notions used to state the properties\<close>

text \<open>The three main registers and their rank, Informal below Polite below VeryPolite.\<close>

definition main_register :: "level \<Rightarrow> bool" where
  "main_register l = (l \<in> set [Informal, Polite, VeryPolite])"

fun register_rank :: "level \<Rightarrow> nat" where
  "register_rank Informal = 0"
| "register_rank Polite = 1"
| "register_rank VeryPolite = 2"
| "register_rank _ = 0"

text \<open>A rounding direction for the examples: an exact tie goes to the even hundredth. No
  quotient of the examples below is a tie, so the choice plays no role in them.\<close>

definition ties_to_even :: "rat \<Rightarrow> bool" where
  "ties_to_even x = odd \<lfloor>100 * x\<rfloor>"

text \<open>The number of tokens whose level enters the level breakdown.\<close>

definition breakdown_total :: "WordAnalysis list \<Rightarrow> nat" where
  "breakdown_total analyses =
    level_count analyses Informal + level_count analyses Polite
    + level_count analyses VeryPolite + level_count analyses Honorific"


text \<open>A ratio with at most two decimals, and a ratio that is the share \<open>c / t\<close> rounded
  to two decimals: a multiple of 0.01 at distance at most 0.005 from the share.\<close>

definition two_decimals :: "rat \<Rightarrow> bool" where
  "two_decimals r = (of_int \<lfloor>100 * r\<rfloor> = 100 * r)"

definition rounded_share :: "rat \<Rightarrow> nat \<Rightarrow> nat \<Rightarrow> bool" where
  "rounded_share r c t = (two_decimals r \<and> \<bar>r - of_nat c / of_nat t\<bar> \<le> 1 / 200)"


subsection \<open>Example inputs\<close>

text \<open>The text \<^verbatim>\<open>gyosunim jilmuni isseoyo\<close> (to a professor) and its tokens.\<close>

definition professor_text :: ustr where
  "professor_text =
    [0xAD50, 0xC218, 0xB2D8, 0x20, 0xC9C8, 0xBB38, 0xC774, 0x20, 0xC788, 0xC5B4, 0xC694]"

definition professor_words :: "ustr list" where
  "professor_words = [[0xAD50, 0xC218, 0xB2D8], [0xC9C8, 0xBB38, 0xC774], [0xC788, 0xC5B4, 0xC694]]"

text \<open>The text \<^verbatim>\<open>annyeonghaseyo. mwohae?\<close> and its tokens.\<close>

definition greeting_text :: ustr where
  "greeting_text = [0xC548, 0xB155, 0xD558, 0xC138, 0xC694, 0x2E, 0x20, 0xBB50, 0xD574, 0x3F]"

definition greeting_words :: "ustr list" where
  "greeting_words = [[0xC548, 0xB155, 0xD558, 0xC138, 0xC694], [0x2E], [0xBB50, 0xD574], [0x3F]]"

text \<open>The text \<^verbatim>\<open>yeojjupda deurida\<close>: two honorific markers of weight 10 each.\<close>

definition honorific_text :: ustr where
  "honorific_text = [0xC5EC, 0xCB59, 0xB2E4, 0x20, 0xB4DC, 0xB9AC, 0xB2E4]"

definition honorific_words :: "ustr list" where
  "honorific_words = [[0xC5EC, 0xCB59, 0xB2E4], [0xB4DC, 0xB9AC, 0xB2E4]]"

text \<open>The text \<^verbatim>\<open>hae ga haeyo gayo hamnida\<close>: two informal, two polite and one formal
  token.\<close>

definition three_register_text :: ustr where
  "three_register_text =
    [0xD574, 0x20, 0xAC00, 0x20, 0xD574, 0xC694, 0x20, 0xAC00, 0xC694, 0x20, 0xD569, 0xB2C8, 0xB2E4]"

definition three_register_words :: "ustr list" where
  "three_register_words =
    [[0xD574], [0xAC00], [0xD574, 0xC694], [0xAC00, 0xC694], [0xD569, 0xB2C8, 0xB2E4]]"

text \<open>The text \<^verbatim>\<open>mwohae malsseum\<close>: one informal token and one honorific token.\<close>

definition informal_honorific_text :: ustr where
  "informal_honorific_text = [0xBB50, 0xD574, 0x20, 0xB9D0, 0xC500]"

definition informal_honorific_words :: "ustr list" where
  "informal_honorific_words = [[0xBB50, 0xD574], [0xB9D0, 0xC500]]"

section \<open>Properties of the relationship policy\<close>

lemma student_level: "dict_get ROLE_LEVELS (str ''student'') 0 = 0"
  by (simp add: dict_get_def ROLE_LEVELS_def str_def)

lemma role_level_range: "role_level r \<in> {0, 1, 2, 3}"
  by (simp add: role_level_def dict_get_def ROLE_LEVELS_def)

lemma role_level_unknown:
  assumes "lower r \<notin> fst ` set ROLE_LEVELS"
  shows "role_level r = 1"
proof -
  from assms have "map_of ROLE_LEVELS (lower r) = None"
    by (simp add: map_of_eq_None_iff)
  then show ?thesis
    by (simp add: role_level_def dict_get_def)
qed

lemma lower_Nil_unknown: "lower [] \<notin> fst ` set ROLE_LEVELS"
  by (simp add: lower_def ROLE_LEVELS_def str_def)

lemma get_recommended_level_cases:
  "get_recommended_level r ta ua =
    (if role_level r \<ge> 3 then VeryPolite
     else if role_level r > 0 then Polite
     else if (case ta of None \<Rightarrow> False | Some a \<Rightarrow> a \<noteq> 0 \<and> a > ua + 3) then Polite
     else Informal)"
  by (simp add: get_recommended_level_def role_level_def student_level Let_def)

lemma get_expected_level_cases:
  "get_expected_level (Some r) ta ua =
    (if r = [] then Polite
     else if role_level r \<ge> 3 then VeryPolite
     else if role_level r \<ge> 2 then Polite
     else Informal)"
  by (simp add: get_expected_level_def role_level_def Let_def)

subsection \<open>The policy itself\<close>

text \<open>
  Claim C1 (amended). The sentence-level service's recommended-level function returns
  VeryPolite when the role's hierarchy level is at least 3; otherwise Polite when the
  role's level minus the speaker level (student, 0) is positive; otherwise Polite when
  the target age is present and exceeds the speaker age plus 3; otherwise Informal. This
  holds for all inputs except a target age of 0 together with a speaker age below -3
  (the age 0 is read as absent). The enhanced service's expected-level function follows
  another rule: Polite for an absent or empty role, else VeryPolite at level 3 and above,
  Polite at level 2 and above, Informal otherwise; it never reads the ages.
\<close>

theorem C1_expected_register_policy:
  assumes "target_age \<noteq> Some 0 \<or> - 3 \<le> user_age"
  shows "get_recommended_level target_role target_age user_age =
      (if role_level target_role \<ge> 3 then VeryPolite
       else if role_level target_role - role_level (str ''student'') > 0 then Polite
       else if (case target_age of None \<Rightarrow> False | Some a \<Rightarrow> a > user_age + 3) then Polite
       else Informal)
    \<and> get_expected_level (Some target_role) target_age user_age =
      (if target_role = [] then Polite
       else if role_level target_role \<ge> 3 then VeryPolite
       else if role_level target_role \<ge> 2 then Polite
       else Informal)
    \<and> get_expected_level None target_age user_age = Polite"
proof -
  have st: "role_level (str ''student'') = 0"
    by (simp add: role_level_def dict_get_def ROLE_LEVELS_def lower_def lower_cp_def str_def)
  have age: "(case target_age of None \<Rightarrow> False | Some a \<Rightarrow> a \<noteq> 0 \<and> a > user_age + 3)
      = (case target_age of None \<Rightarrow> False | Some a \<Rightarrow> a > user_age + 3)"
    using assms by (cases target_age) auto
  have "get_recommended_level target_role target_age user_age =
      (if role_level target_role \<ge> 3 then VeryPolite
       else if role_level target_role - role_level (str ''student'') > 0 then Polite
       else if (case target_age of None \<Rightarrow> False | Some a \<Rightarrow> a > user_age + 3) then Polite
       else Informal)"
    unfolding get_recommended_level_cases age st by simp
  moreover have "get_expected_level None target_age user_age = Polite"
    by (simp add: get_expected_level_def)
  ultimately show ?thesis
    using get_expected_level_cases by simp
qed

theorem C1_expected_register_policy_witness:
  "Some 30 \<noteq> Some (0::int)
   \<and> get_recommended_level (str ''junior'') (Some 30) 22 = Polite
   \<and> get_expected_level (Some (str ''junior'')) (Some 30) 22 = Informal"
proof -
  have h: "Some 30 \<noteq> Some (0::int) \<or> - 3 \<le> (22::int)" by simp
  have j: "role_level (str ''junior'') = 0" "role_level (str ''student'') = 0"
    by (simp_all add: role_level_def dict_get_def ROLE_LEVELS_def lower_def lower_cp_def str_def)
  have n: "str ''junior'' \<noteq> []" by (simp add: str_def)
  from C1_expected_register_policy [OF h, of "str ''junior''"] j n show ?thesis
    by simp
qed

theorem C1_enhanced_friend_counterexample:
  "role_level (str ''friend'') - role_level (str ''student'') > 0
   \<and> get_expected_level (Some (str ''friend'')) None 22 \<noteq> Polite"
  by (simp add: get_expected_level_def role_level_def dict_get_def ROLE_LEVELS_def
      lower_def lower_cp_def str_def)

subsection \<open>Unknown roles\<close>

text \<open>
  Claim C7 (amended). Both functions are total, and a role whose lower-cased form is not a
  key of the role table has hierarchy level 1. For such a role the enhanced service
  expects Informal when the role is not the empty string and Polite when it is, whatever
  the ages; the sentence-level service recommends Polite, whatever the ages, because the
  level 1 lies above the speaker's level 0.
\<close>

theorem C7_unknown_role_default:
  assumes "lower target_role \<notin> fst ` set ROLE_LEVELS"
  shows "role_level target_role = 1
    \<and> get_expected_level (Some target_role) target_age user_age =
        (if target_role = [] then Polite else Informal)
    \<and> get_recommended_level target_role target_age user_age = Polite"
  using role_level_unknown [OF assms]
  by (simp add: get_expected_level_cases get_recommended_level_cases)

theorem C7_unknown_role_default_witness:
  "lower (str ''alien'') \<notin> fst ` set ROLE_LEVELS
   \<and> role_level (str ''alien'') = 1
   \<and> get_expected_level (Some (str ''alien'')) None 22 = Informal
   \<and> get_recommended_level (str ''alien'') None 22 = Polite"
proof -
  have h: "lower (str ''alien'') \<notin> fst ` set ROLE_LEVELS"
    by (simp add: ROLE_LEVELS_def lower_def lower_cp_def str_def)
  have n: "str ''alien'' \<noteq> []" by (simp add: str_def)
  from C7_unknown_role_default [OF h, of None 22] h n show ?thesis
    by simp
qed

theorem C7_sentence_level_alien_counterexample:
  "lower (str ''alien'') \<notin> fst ` set ROLE_LEVELS
   \<and> get_recommended_level (str ''alien'') None 22 \<noteq> Informal"
  by (simp add: get_recommended_level_def dict_get_def ROLE_LEVELS_def
      lower_def lower_cp_def str_def)

subsection \<open>The two services compared\<close>

text \<open>
  Claim C10 (amended). The sentence-level recommended level and the enhanced expected
  level of a role string agree exactly when the role is empty, or its hierarchy level is
  2 or more, or its level is 0 and no age escalation applies (the target age is absent,
  0, or at most the speaker age plus 3). They differ for every non-empty role of level 1
  (friend, peer and every unknown role: Polite against Informal) and for level 0 with an
  age escalation.
\<close>

theorem C10_services_agree_iff:
  "get_recommended_level target_role target_age user_age
     = get_expected_level (Some target_role) target_age user_age
   \<longleftrightarrow> (target_role = [] \<or> role_level target_role \<ge> 2
        \<or> (role_level target_role = 0
            \<and> (case target_age of None \<Rightarrow> True | Some a \<Rightarrow> a = 0 \<or> a \<le> user_age + 3)))"
proof (cases "target_role = []")
  case True
  then show ?thesis
    using role_level_unknown [OF lower_Nil_unknown]
    by (simp add: get_expected_level_cases get_recommended_level_cases)
next
  case False
  then show ?thesis
    using role_level_range [of target_role]
    by (cases target_age) (auto simp: get_expected_level_cases get_recommended_level_cases)
qed

theorem C10_services_agree_iff_witness:
  "get_recommended_level (str ''senior'') (Some 25) 22
     = get_expected_level (Some (str ''senior'')) (Some 25) 22"
proof -
  have s: "role_level (str ''senior'') = 2"
    by (simp add: role_level_def dict_get_def ROLE_LEVELS_def lower_def lower_cp_def str_def)
  from C10_services_agree_iff [of "str ''senior''" "Some 25" 22] s show ?thesis
    by simp
qed

theorem C10_friend_counterexample:
  "get_recommended_level (str ''friend'') None 22
     \<noteq> get_expected_level (Some (str ''friend'')) None 22"
  by (simp add: get_recommended_level_def get_expected_level_def dict_get_def ROLE_LEVELS_def
      lower_def lower_cp_def str_def)

section \<open>Properties of the word-level analysis\<close>

lemmas table_defs = build_word_level_map_def informal_markers_def polite_markers_def
  formal_markers_def HONORIFIC_WORDS_def ENDING_PATTERNS_def match_at_def at_end_def

subsection \<open>Levels of the example tokens\<close>

lemma detect_gyosunim: "detect_word_level [0xAD50, 0xC218, 0xB2D8] = Neutral"
  by (simp add: detect_word_level_def table_defs)

lemma detect_jilmuni: "detect_word_level [0xC9C8, 0xBB38, 0xC774] = Neutral"
  by (simp add: detect_word_level_def table_defs)

lemma detect_isseoyo: "detect_word_level [0xC788, 0xC5B4, 0xC694] = Polite"
  by (simp add: detect_word_level_def table_defs)

lemma detect_annyeonghaseyo: "detect_word_level [0xC548, 0xB155, 0xD558, 0xC138, 0xC694] = Polite"
  by (simp add: detect_word_level_def table_defs)

lemma detect_full_stop: "detect_word_level [0x2E] = Neutral"
  by (simp add: detect_word_level_def table_defs)

lemma detect_question_mark: "detect_word_level [0x3F] = Neutral"
  by (simp add: detect_word_level_def table_defs)

lemma detect_mwohae: "detect_word_level [0xBB50, 0xD574] = Informal"
  by (simp add: detect_word_level_def table_defs)

lemma detect_yeojjupda: "detect_word_level [0xC5EC, 0xCB59, 0xB2E4] = Honorific"
  by (simp add: detect_word_level_def table_defs)

lemma detect_deurida: "detect_word_level [0xB4DC, 0xB9AC, 0xB2E4] = Honorific"
  by (simp add: detect_word_level_def table_defs)

lemma detect_malsseum: "detect_word_level [0xB9D0, 0xC500] = Honorific"
  by (simp add: detect_word_level_def table_defs)

lemma detect_hae: "detect_word_level [0xD574] = Informal"
  by (simp add: detect_word_level_def table_defs)

lemma detect_ga: "detect_word_level [0xAC00] = Informal"
  by (simp add: detect_word_level_def table_defs)

lemma detect_haeyo: "detect_word_level [0xD574, 0xC694] = Polite"
  by (simp add: detect_word_level_def table_defs)

lemma detect_gayo: "detect_word_level [0xAC00, 0xC694] = Polite"
  by (simp add: detect_word_level_def table_defs)

lemma detect_hamnida: "detect_word_level [0xD569, 0xB2C8, 0xB2E4] = VeryPolite"
  by (simp add: detect_word_level_def table_defs)

lemmas detect_examples = detect_gyosunim detect_jilmuni detect_isseoyo detect_annyeonghaseyo
  detect_full_stop detect_question_mark detect_mwohae detect_yeojjupda detect_deurida
  detect_malsseum detect_hae detect_ga detect_haeyo detect_gayo detect_hamnida

subsection \<open>What the word loop stores in a token analysis\<close>

lemma analyze_words_loop_elem:
  assumes "a \<in> set (analyze_words_loop text expected ws pos)"
  shows "current_level a = detect_word_level (word a)
    \<and> is_correct a = is_word_correct (current_level a) expected
    \<and> suggestion a =
        (if \<not> is_correct a \<and> current_level a \<noteq> Neutral
         then get_suggestion (word a) (current_level a) expected else None)
    \<and> error_type a =
        (if \<not> is_correct a \<and> current_level a \<noteq> Neutral
         then Some (get_error_type (current_level a) expected) else None)"
  using assms
proof (induction ws arbitrary: pos)
  case Nil
  then show ?case by simp
next
  case (Cons w ws)
  then show ?case
    by (auto simp: Let_def split: if_splits)
qed

lemma analyze_words_loop_levels:
  "map current_level (analyze_words_loop text expected ws pos) =
    map detect_word_level (filter (\<lambda>w. w \<noteq> []) (map strip ws))"
  by (induction ws arbitrary: pos) (simp_all add: Let_def)

lemma analyze_words_levels:
  "map current_level (analyze_words text ws expected) =
    map detect_word_level (filter (\<lambda>w. w \<noteq> []) (map strip ws))"
  by (simp add: analyze_words_def analyze_words_loop_levels)

lemma level_count_map:
  "level_count analyses l = length (filter (\<lambda>x. x = l) (map current_level analyses))"
  by (simp add: level_count_def filter_map comp_def)

lemma get_expected_level_main: "main_register (get_expected_level target_role target_age user_age)"
  by (simp add: get_expected_level_def main_register_def Let_def split: option.splits)

lemma word_analysis_analyze:
  "word_analysis (analyze tie_up text ws target_role target_age user_age) =
    analyze_words text ws (get_expected_level target_role target_age user_age)"
  by (simp add: analyze_def Let_def)

lemma corrections_analyze:
  "corrections (analyze tie_up text ws target_role target_age user_age) =
    generate_corrections text
      (analyze_words text ws (get_expected_level target_role target_age user_age))
      (get_expected_level target_role target_age user_age)"
  by (simp add: analyze_def Let_def)

lemma is_word_correct_main:
  "main_register current \<Longrightarrow> main_register expected \<Longrightarrow>
   is_word_correct current expected \<longleftrightarrow> register_rank expected \<le> register_rank current"
  by (auto simp: main_register_def is_word_correct_def dict_get_def level_order_def)

lemma is_word_correct_neutral_honorific:
  "is_word_correct Neutral expected" "is_word_correct Honorific expected"
  by (simp_all add: is_word_correct_def)

subsection \<open>The conversion tables hold no empty replacement\<close>

lemma INFORMAL_TO_POLITE_nonempty:
  assumes "map_of INFORMAL_TO_POLITE w = Some s"
  shows "s \<noteq> []"
proof -
  from map_of_SomeD [OF assms] have "(w, s) \<in> set INFORMAL_TO_POLITE" .
  then show ?thesis
    by (auto simp: INFORMAL_TO_POLITE_def)
qed

lemma INFORMAL_TO_FORMAL_nonempty:
  assumes "map_of INFORMAL_TO_FORMAL w = Some s"
  shows "s \<noteq> []"
proof -
  from map_of_SomeD [OF assms] have "(w, s) \<in> set INFORMAL_TO_FORMAL" .
  then show ?thesis
    by (auto simp: INFORMAL_TO_FORMAL_def)
qed

lemma POLITE_TO_FORMAL_nonempty:
  assumes "map_of POLITE_TO_FORMAL w = Some s"
  shows "s \<noteq> []"
proof -
  from map_of_SomeD [OF assms] have "(w, s) \<in> set POLITE_TO_FORMAL" .
  then show ?thesis
    by (auto simp: POLITE_TO_FORMAL_def)
qed

lemma get_suggestion_truthy:
  "truthy (get_suggestion w current expected) \<longleftrightarrow> get_suggestion w current expected \<noteq> None"
  using INFORMAL_TO_POLITE_nonempty INFORMAL_TO_FORMAL_nonempty POLITE_TO_FORMAL_nonempty
  by (auto simp: truthy_def get_suggestion_def split: option.splits)

lemma get_suggestion_Some:
  "get_suggestion w current expected = Some s \<longleftrightarrow>
    (current = Informal \<and> expected = Polite \<and> map_of INFORMAL_TO_POLITE w = Some s)
    \<or> (current = Informal \<and> expected = VeryPolite \<and> map_of INFORMAL_TO_FORMAL w = Some s)
    \<or> (current = Polite \<and> expected = VeryPolite \<and> map_of POLITE_TO_FORMAL w = Some s)"
  by (auto simp: get_suggestion_def)

text \<open>An incorrect token of the word loop is never neutral, so its stored suggestion is
  the table lookup.\<close>

lemma analyze_words_suggestion:
  assumes "a \<in> set (analyze_words text ws expected)" and "\<not> is_correct a"
  shows "suggestion a = get_suggestion (word a) (detect_word_level (word a)) expected"
proof -
  from assms(1) have e: "current_level a = detect_word_level (word a)"
      "is_correct a = is_word_correct (current_level a) expected"
      "suggestion a =
        (if \<not> is_correct a \<and> current_level a \<noteq> Neutral
         then get_suggestion (word a) (current_level a) expected else None)"
    unfolding analyze_words_def by (auto dest: analyze_words_loop_elem)
  from e(2) assms(2) have "current_level a \<noteq> Neutral"
    using is_word_correct_neutral_honorific(1) by auto
  with e assms(2) show ?thesis by simp
qed

lemma generate_corrections_map:
  "map original (generate_corrections text analyses expected) =
    map word (filter (\<lambda>a. \<not> is_correct a \<and> truthy (suggestion a)) analyses)"
  by (simp add: generate_corrections_def comp_def)

lemma generate_corrections_elem:
  assumes "c \<in> set (generate_corrections text analyses expected)"
  shows "\<exists>a \<in> set analyses. \<not> is_correct a \<and> truthy (suggestion a)
           \<and> original c = word a \<and> Some (corrected c) = suggestion a"
  using assms by (auto simp: generate_corrections_def truthy_def split: option.splits)

subsection \<open>Correctness flag of a token\<close>

text \<open>
  Claim C4. For every token analysis that the engine produces, \<open>is_correct\<close> is true
  when the detected register is Neutral or Honorific; and when the detected register is
  one of the three main registers, \<open>is_correct\<close> holds if and only if the rank of the
  detected register is at least the rank of the expected register, in the order Informal,
  Polite, VeryPolite.
\<close>

theorem C4_is_correct_invariant:
  "\<forall>a \<in> set (word_analysis (analyze tie_up text ws target_role target_age user_age)).
     (current_level a = Neutral \<or> current_level a = Honorific \<longrightarrow> is_correct a)
     \<and> (main_register (current_level a) \<longrightarrow>
          (is_correct a \<longleftrightarrow>
            register_rank (get_expected_level target_role target_age user_age)
              \<le> register_rank (current_level a)))"
proof
  fix a
  let ?expected = "get_expected_level target_role target_age user_age"
  assume "a \<in> set (word_analysis (analyze tie_up text ws target_role target_age user_age))"
  then have "a \<in> set (analyze_words_loop text ?expected ws 0)"
    by (simp add: word_analysis_analyze analyze_words_def)
  then have c: "is_correct a = is_word_correct (current_level a) ?expected"
    by (auto dest: analyze_words_loop_elem)
  show "(current_level a = Neutral \<or> current_level a = Honorific \<longrightarrow> is_correct a)
     \<and> (main_register (current_level a) \<longrightarrow>
          (is_correct a \<longleftrightarrow> register_rank ?expected \<le> register_rank (current_level a)))"
    unfolding c
    using is_word_correct_neutral_honorific [of ?expected]
      is_word_correct_main [OF _ get_expected_level_main, of "current_level a"]
    by auto
qed

subsection \<open>The professor example, evaluated\<close>

lemma professor_expected:
  "get_expected_level (Some (str ''professor'')) (Some 55) 22 = VeryPolite"
  by (simp add: get_expected_level_def dict_get_def ROLE_LEVELS_def lower_def lower_cp_def
      str_def)

lemma friend_expected: "get_expected_level (Some (str ''friend'')) None 22 = Informal"
  by (simp add: get_expected_level_def dict_get_def ROLE_LEVELS_def lower_def lower_cp_def
      str_def)

lemma professor_analysis:
  "analyze_words professor_text professor_words VeryPolite =
    [\<lparr>word = [0xAD50, 0xC218, 0xB2D8], position_start = 0, position_end = 3,
      current_level = Neutral, expected_level = None, is_correct = True,
      suggestion = None, error_type = None\<rparr>,
     \<lparr>word = [0xC9C8, 0xBB38, 0xC774], position_start = 4, position_end = 7,
      current_level = Neutral, expected_level = None, is_correct = True,
      suggestion = None, error_type = None\<rparr>,
     \<lparr>word = [0xC788, 0xC5B4, 0xC694], position_start = 8, position_end = 11,
      current_level = Polite, expected_level = Some VeryPolite, is_correct = False,
      suggestion = Some [0xC788, 0xC2B5, 0xB2C8, 0xB2E4],
      error_type = Some (str ''ending_mismatch'')\<rparr>]"
  by (simp add: analyze_words_def professor_text_def professor_words_def strip_def is_space_def
      py_find_def detect_examples is_word_correct_def dict_get_def level_order_def
      get_suggestion_def POLITE_TO_FORMAL_def get_error_type_def Let_def)

theorem C4_is_correct_invariant_witness:
  "current_level (word_analysis (analyze ties_to_even professor_text professor_words
      (Some (str ''professor'')) (Some 55) 22) ! 2) = Polite
   \<and> get_expected_level (Some (str ''professor'')) (Some 55) 22 = VeryPolite
   \<and> \<not> is_correct (word_analysis (analyze ties_to_even professor_text professor_words
      (Some (str ''professor'')) (Some 55) 22) ! 2)"
proof -
  let ?r = "analyze ties_to_even professor_text professor_words
      (Some (str ''professor'')) (Some 55) 22"
  have wa: "word_analysis ?r = analyze_words professor_text professor_words VeryPolite"
    by (simp add: word_analysis_analyze professor_expected)
  have lv: "current_level (word_analysis ?r ! 2) = Polite"
    by (simp add: wa professor_analysis)
  have mem: "word_analysis ?r ! 2 \<in> set (word_analysis ?r)"
    by (simp add: wa professor_analysis)
  from C4_is_correct_invariant [THEN bspec, OF mem] lv professor_expected show ?thesis
    by (simp add: main_register_def)
qed

subsection \<open>Corrections\<close>

text \<open>
  Claim C5. The engine emits a correction for a token only when the token is incorrect
  and its exact surface text is a key of the conversion table selected by the pair of
  detected and expected register; the corrected form is the value stored under that key.
  An incorrect token whose text misses the table is left out of the correction list: the
  originals of the corrections are, in order, exactly the incorrect tokens with a table
  entry. The functions are total, so nothing is raised.
\<close>

theorem C5_corrections_are_table_lookups:
  "(\<forall>c \<in> set (corrections (analyze tie_up text ws target_role target_age user_age)).
      (detect_word_level (original c) = Informal
         \<and> get_expected_level target_role target_age user_age = Polite
         \<and> map_of INFORMAL_TO_POLITE (original c) = Some (corrected c))
      \<or> (detect_word_level (original c) = Informal
         \<and> get_expected_level target_role target_age user_age = VeryPolite
         \<and> map_of INFORMAL_TO_FORMAL (original c) = Some (corrected c))
      \<or> (detect_word_level (original c) = Polite
         \<and> get_expected_level target_role target_age user_age = VeryPolite
         \<and> map_of POLITE_TO_FORMAL (original c) = Some (corrected c)))
   \<and> map original (corrections (analyze tie_up text ws target_role target_age user_age)) =
       map word
         (filter (\<lambda>a. \<not> is_correct a
              \<and> get_suggestion (word a) (current_level a)
                   (get_expected_level target_role target_age user_age) \<noteq> None)
           (word_analysis (analyze tie_up text ws target_role target_age user_age)))"
proof (intro conjI ballI)
  let ?expected = "get_expected_level target_role target_age user_age"
  let ?was = "analyze_words text ws ?expected"
  fix c
  assume "c \<in> set (corrections (analyze tie_up text ws target_role target_age user_age))"
  then have "c \<in> set (generate_corrections text ?was ?expected)"
    by (simp add: corrections_analyze)
  then obtain a where a: "a \<in> set ?was" "\<not> is_correct a" "original c = word a"
      "Some (corrected c) = suggestion a"
    using generate_corrections_elem by blast
  from analyze_words_suggestion [OF a(1,2)] a(3,4)
  have "get_suggestion (original c) (detect_word_level (original c)) ?expected
      = Some (corrected c)"
    by simp
  then show "(detect_word_level (original c) = Informal \<and> ?expected = Polite
         \<and> map_of INFORMAL_TO_POLITE (original c) = Some (corrected c))
      \<or> (detect_word_level (original c) = Informal \<and> ?expected = VeryPolite
         \<and> map_of INFORMAL_TO_FORMAL (original c) = Some (corrected c))
      \<or> (detect_word_level (original c) = Polite \<and> ?expected = VeryPolite
         \<and> map_of POLITE_TO_FORMAL (original c) = Some (corrected c))"
    by (simp only: get_suggestion_Some)
next
  let ?expected = "get_expected_level target_role target_age user_age"
  let ?was = "analyze_words text ws ?expected"
  have "filter (\<lambda>a. \<not> is_correct a \<and> truthy (suggestion a)) ?was =
      filter (\<lambda>a. \<not> is_correct a
          \<and> get_suggestion (word a) (current_level a) ?expected \<noteq> None) ?was"
  proof (rule filter_cong [OF refl])
    fix a
    assume a: "a \<in> set ?was"
    then have lv: "current_level a = detect_word_level (word a)"
      unfolding analyze_words_def by (auto dest: analyze_words_loop_elem)
    show "(\<not> is_correct a \<and> truthy (suggestion a)) =
        (\<not> is_correct a \<and> get_suggestion (word a) (current_level a) ?expected \<noteq> None)"
    proof (cases "is_correct a")
      case True
      then show ?thesis by simp
    next
      case False
      from analyze_words_suggestion [OF a False]
      have "suggestion a = get_suggestion (word a) (current_level a) ?expected"
        by (simp add: lv)
      then show ?thesis
        by (simp add: get_suggestion_truthy)
    qed
  qed
  then show "map original (corrections (analyze tie_up text ws target_role target_age user_age)) =
       map word
         (filter (\<lambda>a. \<not> is_correct a
              \<and> get_suggestion (word a) (current_level a) ?expected \<noteq> None)
           (word_analysis (analyze tie_up text ws target_role target_age user_age)))"
    by (simp add: corrections_analyze word_analysis_analyze generate_corrections_map)
qed

theorem C5_corrections_are_table_lookups_witness:
  "original (hd (corrections (analyze ties_to_even professor_text professor_words
      (Some (str ''professor'')) (Some 55) 22))) = [0xC788, 0xC5B4, 0xC694]
   \<and> map_of POLITE_TO_FORMAL [0xC788, 0xC5B4, 0xC694] =
       Some (corrected (hd (corrections (analyze ties_to_even professor_text professor_words
         (Some (str ''professor'')) (Some 55) 22))))"
proof -
  let ?r = "analyze ties_to_even professor_text professor_words
      (Some (str ''professor'')) (Some 55) 22"
  have cs: "map original (corrections ?r) = [[0xC788, 0xC5B4, 0xC694]]"
    by (simp add: corrections_analyze professor_expected professor_analysis
        generate_corrections_def truthy_def)
  then have ne: "corrections ?r \<noteq> []" by auto
  then have mem: "hd (corrections ?r) \<in> set (corrections ?r)" by simp
  from cs ne have orig: "original (hd (corrections ?r)) = [0xC788, 0xC5B4, 0xC694]"
    by (cases "corrections ?r") auto
  from C5_corrections_are_table_lookups [THEN conjunct1, THEN bspec, OF mem]
    orig professor_expected detect_isseoyo
  show ?thesis by simp
qed

section \<open>Properties of the aggregation\<close>

subsection \<open>Rounding to two decimals\<close>

lemma round2_error: "\<bar>round2 tie_up x - x\<bar> \<le> 1 / 200"
proof -
  define k where "k = \<lfloor>100 * x\<rfloor>"
  define r where "r = 100 * x - of_int k"
  have r0: "0 \<le> r" and r1: "r < 1"
    unfolding r_def k_def by linarith+
  have x: "x = (of_int k + r) / 100"
    unfolding r_def by simp
  have "round2 tie_up x =
      (if r < 1 / 2 then of_int k
       else if r > 1 / 2 then of_int (k + 1)
       else if tie_up x then of_int (k + 1) else of_int k) / 100"
    unfolding round2_def Let_def k_def r_def by simp
  then show ?thesis
    using r0 r1 unfolding x by (auto simp: field_simps abs_if split: if_splits)
qed

lemma round2_zero: "round2 tie_up 0 = 0"
  by (simp add: round2_def)

subsection \<open>The level breakdown\<close>

lemma calculate_level_breakdown_empty:
  assumes "breakdown_total analyses = 0"
  shows "calculate_level_breakdown tie_up analyses =
    \<lparr>informal = 0, polite = 0, very_polite = 0, honorific = 0\<rparr>"
  using assms by (simp add: calculate_level_breakdown_def breakdown_total_def Let_def)

lemma calculate_level_breakdown_fields:
  assumes "0 < breakdown_total analyses"
  shows "informal (calculate_level_breakdown tie_up analyses) =
      round2 tie_up (of_nat (level_count analyses Informal) / of_nat (breakdown_total analyses))"
    and "polite (calculate_level_breakdown tie_up analyses) =
      round2 tie_up (of_nat (level_count analyses Polite) / of_nat (breakdown_total analyses))"
    and "very_polite (calculate_level_breakdown tie_up analyses) =
      round2 tie_up (of_nat (level_count analyses VeryPolite) / of_nat (breakdown_total analyses))"
    and "honorific (calculate_level_breakdown tie_up analyses) =
      round2 tie_up (of_nat (level_count analyses Honorific) / of_nat (breakdown_total analyses))"
  using assms by (auto simp: calculate_level_breakdown_def breakdown_total_def Let_def)

lemma shares_sum:
  assumes "0 < breakdown_total analyses"
  shows "(of_nat (level_count analyses Informal) / of_nat (breakdown_total analyses) :: rat)
    + of_nat (level_count analyses Polite) / of_nat (breakdown_total analyses)
    + of_nat (level_count analyses VeryPolite) / of_nat (breakdown_total analyses)
    + of_nat (level_count analyses Honorific) / of_nat (breakdown_total analyses) = 1"
proof -
  have "(of_nat (level_count analyses Informal) + of_nat (level_count analyses Polite)
      + of_nat (level_count analyses VeryPolite) + of_nat (level_count analyses Honorific) :: rat)
    = of_nat (breakdown_total analyses)"
    by (simp add: breakdown_total_def)
  moreover have "(of_nat (breakdown_total analyses) :: rat) \<noteq> 0"
    using assms by simp
  ultimately show ?thesis
    by (simp add: add_divide_distrib [symmetric])
qed

lemma level_breakdown_analyze:
  "level_breakdown (analyze tie_up text ws target_role target_age user_age) =
    calculate_level_breakdown tie_up
      (word_analysis (analyze tie_up text ws target_role target_age user_age))"
  by (simp add: analyze_def Let_def)

lemma level_analyze:
  "level (analyze tie_up text ws target_role target_age user_age) =
    get_dominant_level_enhanced
      (level_breakdown (analyze tie_up text ws target_role target_age user_age))"
  by (simp add: analyze_def Let_def)

subsection \<open>The dominant level of the enhanced service\<close>

lemma get_dominant_level_enhanced_no_main:
  assumes "informal breakdown = 0" "polite breakdown = 0" "very_polite breakdown = 0"
  shows "get_dominant_level_enhanced breakdown = Polite"
  using assms
  by (simp add: get_dominant_level_enhanced_def breakdown_items_def dict_get_def Let_def)

subsection \<open>Rounded shares and the cases of the dominant level\<close>

lemma two_decimals_round2: "two_decimals (round2 tie_up x)"
  by (simp add: two_decimals_def round2_def Let_def)

lemma rounded_share_round2: "rounded_share (round2 tie_up (of_nat c / of_nat t)) c t"
  unfolding rounded_share_def using two_decimals_round2 round2_error by blast

lemma calculate_level_breakdown_rounded:
  assumes "0 < breakdown_total analyses"
  shows "rounded_share (informal (calculate_level_breakdown tie_up analyses))
      (level_count analyses Informal) (breakdown_total analyses)"
    and "rounded_share (polite (calculate_level_breakdown tie_up analyses))
      (level_count analyses Polite) (breakdown_total analyses)"
    and "rounded_share (very_polite (calculate_level_breakdown tie_up analyses))
      (level_count analyses VeryPolite) (breakdown_total analyses)"
    and "rounded_share (honorific (calculate_level_breakdown tie_up analyses))
      (level_count analyses Honorific) (breakdown_total analyses)"
  unfolding calculate_level_breakdown_fields [OF assms] by (rule rounded_share_round2)+

lemma get_dominant_level_enhanced_cases:
  "get_dominant_level_enhanced breakdown =
    (if 2 \<le> length (filter (\<lambda>x. 0 < x)
            [informal breakdown, polite breakdown, very_polite breakdown])
        \<and> (\<forall>x \<in> set [informal breakdown, polite breakdown, very_polite breakdown].
              0 < x \<longrightarrow> 1 / 5 < x)
     then Mixed
     else if 0 < very_polite breakdown then VeryPolite
     else if 0 < polite breakdown then Polite
     else if 0 < informal breakdown then Informal
     else Polite)"
proof -
  consider "0 < informal breakdown" "0 < polite breakdown" "0 < very_polite breakdown"
    | "0 < informal breakdown" "0 < polite breakdown" "\<not> 0 < very_polite breakdown"
    | "0 < informal breakdown" "\<not> 0 < polite breakdown" "0 < very_polite breakdown"
    | "0 < informal breakdown" "\<not> 0 < polite breakdown" "\<not> 0 < very_polite breakdown"
    | "\<not> 0 < informal breakdown" "0 < polite breakdown" "0 < very_polite breakdown"
    | "\<not> 0 < informal breakdown" "0 < polite breakdown" "\<not> 0 < very_polite breakdown"
    | "\<not> 0 < informal breakdown" "\<not> 0 < polite breakdown" "0 < very_polite breakdown"
    | "\<not> 0 < informal breakdown" "\<not> 0 < polite breakdown" "\<not> 0 < very_polite breakdown"
    by blast
  then show ?thesis
    by cases
      (auto simp: get_dominant_level_enhanced_def breakdown_items_def dict_get_def Let_def
        min_def)
qed

subsection \<open>Fields of an analysis result\<close>

lemma errors_analyze:
  "errors (analyze tie_up text ws target_role target_age user_age) =
    categorize_errors (word_analysis (analyze tie_up text ws target_role target_age user_age))"
  by (simp add: analyze_def Let_def)

lemma recommended_level_analyze:
  "recommended_level (analyze tie_up text ws target_role target_age user_age) =
    Some (get_expected_level target_role target_age user_age)"
  by (simp add: analyze_def Let_def)

lemma is_appropriate_analyze:
  "is_appropriate (analyze tie_up text ws target_role target_age user_age) =
    check_appropriateness (level (analyze tie_up text ws target_role target_age user_age))
      (get_expected_level target_role target_age user_age)"
  by (simp add: analyze_def Let_def)

lemma score_analyze:
  "score (analyze tie_up text ws target_role target_age user_age) =
    calculate_score (level (analyze tie_up text ws target_role target_age user_age))
      (get_expected_level target_role target_age user_age)
      (level_breakdown (analyze tie_up text ws target_role target_age user_age))
      (int (length (errors (analyze tie_up text ws target_role target_age user_age))))"
  by (simp add: analyze_def Let_def)

subsection \<open>The other examples, evaluated\<close>

lemma no_role_expected: "get_expected_level None None 22 = Polite"
  by (simp add: get_expected_level_def)

lemma greeting_analysis:
  "analyze_words greeting_text greeting_words Informal =
    [\<lparr>word = [0xC548, 0xB155, 0xD558, 0xC138, 0xC694], position_start = 0, position_end = 5,
      current_level = Polite, expected_level = Some Informal, is_correct = True,
      suggestion = None, error_type = None\<rparr>,
     \<lparr>word = [0x2E], position_start = 5, position_end = 6,
      current_level = Neutral, expected_level = None, is_correct = True,
      suggestion = None, error_type = None\<rparr>,
     \<lparr>word = [0xBB50, 0xD574], position_start = 7, position_end = 9,
      current_level = Informal, expected_level = Some Informal, is_correct = True,
      suggestion = None, error_type = None\<rparr>,
     \<lparr>word = [0x3F], position_start = 9, position_end = 10,
      current_level = Neutral, expected_level = None, is_correct = True,
      suggestion = None, error_type = None\<rparr>]"
  by (simp add: analyze_words_def greeting_text_def greeting_words_def strip_def is_space_def
      py_find_def detect_examples is_word_correct_def dict_get_def level_order_def Let_def)

lemma greeting_breakdown:
  "calculate_level_breakdown ties_to_even (analyze_words greeting_text greeting_words Informal) =
    \<lparr>informal = 1 / 2, polite = 1 / 2, very_polite = 0, honorific = 0\<rparr>"
  by (simp add: greeting_analysis calculate_level_breakdown_def level_count_def round2_def
      Let_def)

lemma honorific_levels:
  "map current_level (analyze_words honorific_text honorific_words expected) =
    [Honorific, Honorific]"
  by (simp add: analyze_words_levels honorific_words_def strip_def is_space_def detect_examples)

lemma three_register_levels:
  "map current_level (analyze_words three_register_text three_register_words expected) =
    [Informal, Informal, Polite, Polite, VeryPolite]"
  by (simp add: analyze_words_levels three_register_words_def strip_def is_space_def
      detect_examples)

lemma informal_honorific_levels:
  "map current_level
      (analyze_words informal_honorific_text informal_honorific_words expected) =
    [Informal, Honorific]"
  by (simp add: analyze_words_levels informal_honorific_words_def strip_def is_space_def
      detect_examples)

lemma three_register_breakdown:
  "calculate_level_breakdown ties_to_even
      (analyze_words three_register_text three_register_words expected) =
    \<lparr>informal = 2 / 5, polite = 2 / 5, very_polite = 1 / 5, honorific = 0\<rparr>"
  by (simp add: calculate_level_breakdown_def level_count_map three_register_levels round2_def
      Let_def)

lemma informal_honorific_breakdown:
  "calculate_level_breakdown ties_to_even
      (analyze_words informal_honorific_text informal_honorific_words expected) =
    \<lparr>informal = 1 / 2, polite = 0, very_polite = 0, honorific = 1 / 2\<rparr>"
  by (simp add: calculate_level_breakdown_def level_count_map informal_honorific_levels
      round2_def Let_def)

lemma honorific_breakdown:
  "calculate_level_breakdown ties_to_even
      (analyze_words honorific_text honorific_words expected) =
    \<lparr>informal = 0, polite = 0, very_polite = 0, honorific = 1\<rparr>"
  by (simp add: calculate_level_breakdown_def level_count_map honorific_levels round2_def
      Let_def)

lemma honorific_text_score: "text_honorific_score honorific_text = 20"
  by (simp add: text_honorific_score_def honorific_text_def HONORIFIC_WORDS_def)

subsection \<open>Mixed register\<close>

text \<open>
  Claim C3 (amended). In enhanced mode the dominant register of an analysis result is
  computed from the reported ratios of the three main registers. It is Mixed exactly when
  at least two of them are non-zero and every non-zero one is above 0.2. Otherwise it is
  the most formal register with a non-zero ratio (VeryPolite, then Polite, then Informal),
  and Polite when all three ratios are zero. The reported ratio of a register is its share
  of the tokens tagged informal, polite, very_polite or honorific, rounded to two
  decimals (a multiple of 0.01 within 0.005 of the share); with no such token every ratio
  is 0. So a third main register that is present with a ratio of 0.2 or less, or
  honorific tokens that lower the main ratios, keep the result from being Mixed.
\<close>

theorem C3_dominant_register:
  "level (analyze tie_up text ws target_role target_age user_age) =
      get_dominant_level_enhanced
        (calculate_level_breakdown tie_up
          (word_analysis (analyze tie_up text ws target_role target_age user_age)))
   \<and> get_dominant_level_enhanced breakdown =
      (if 2 \<le> length (filter (\<lambda>x. 0 < x)
              [informal breakdown, polite breakdown, very_polite breakdown])
          \<and> (\<forall>x \<in> set [informal breakdown, polite breakdown, very_polite breakdown].
                0 < x \<longrightarrow> 1 / 5 < x)
       then Mixed
       else if 0 < very_polite breakdown then VeryPolite
       else if 0 < polite breakdown then Polite
       else if 0 < informal breakdown then Informal
       else Polite)
   \<and> (0 < breakdown_total analyses \<longrightarrow>
        rounded_share (informal (calculate_level_breakdown tie_up analyses))
          (level_count analyses Informal) (breakdown_total analyses)
        \<and> rounded_share (polite (calculate_level_breakdown tie_up analyses))
          (level_count analyses Polite) (breakdown_total analyses)
        \<and> rounded_share (very_polite (calculate_level_breakdown tie_up analyses))
          (level_count analyses VeryPolite) (breakdown_total analyses))
   \<and> (breakdown_total analyses = 0 \<longrightarrow>
        calculate_level_breakdown tie_up analyses =
          \<lparr>informal = 0, polite = 0, very_polite = 0, honorific = 0\<rparr>)"
proof (intro conjI impI)
  show "level (analyze tie_up text ws target_role target_age user_age) =
      get_dominant_level_enhanced
        (calculate_level_breakdown tie_up
          (word_analysis (analyze tie_up text ws target_role target_age user_age)))"
    by (simp add: level_analyze level_breakdown_analyze)
  show "get_dominant_level_enhanced breakdown =
      (if 2 \<le> length (filter (\<lambda>x. 0 < x)
              [informal breakdown, polite breakdown, very_polite breakdown])
          \<and> (\<forall>x \<in> set [informal breakdown, polite breakdown, very_polite breakdown].
                0 < x \<longrightarrow> 1 / 5 < x)
       then Mixed
       else if 0 < very_polite breakdown then VeryPolite
       else if 0 < polite breakdown then Polite
       else if 0 < informal breakdown then Informal
       else Polite)"
    by (rule get_dominant_level_enhanced_cases)
next
  assume pos: "0 < breakdown_total analyses"
  show "rounded_share (informal (calculate_level_breakdown tie_up analyses))
      (level_count analyses Informal) (breakdown_total analyses)"
    by (rule calculate_level_breakdown_rounded [OF pos])
  show "rounded_share (polite (calculate_level_breakdown tie_up analyses))
      (level_count analyses Polite) (breakdown_total analyses)"
    by (rule calculate_level_breakdown_rounded [OF pos])
  show "rounded_share (very_polite (calculate_level_breakdown tie_up analyses))
      (level_count analyses VeryPolite) (breakdown_total analyses)"
    by (rule calculate_level_breakdown_rounded [OF pos])
next
  assume "breakdown_total analyses = 0"
  then show "calculate_level_breakdown tie_up analyses =
      \<lparr>informal = 0, polite = 0, very_polite = 0, honorific = 0\<rparr>"
    by (rule calculate_level_breakdown_empty)
qed

theorem C3_dominant_register_witness:
  "level (analyze ties_to_even greeting_text greeting_words (Some (str ''friend'')) None 22)
     = Mixed"
proof -
  let ?r = "analyze ties_to_even greeting_text greeting_words (Some (str ''friend'')) None 22"
  let ?bd = "\<lparr>informal = 1 / 2, polite = 1 / 2, very_polite = 0, honorific = 0\<rparr>"
  have bd: "calculate_level_breakdown ties_to_even (word_analysis ?r) = ?bd"
    by (simp add: word_analysis_analyze friend_expected greeting_breakdown)
  note c3 = C3_dominant_register [of ties_to_even greeting_text greeting_words
      "Some (str ''friend'')" None 22 ?bd]
  from c3 have a: "level ?r =
      get_dominant_level_enhanced (calculate_level_breakdown ties_to_even (word_analysis ?r))"
    by blast
  from c3 have b: "get_dominant_level_enhanced ?bd =
      (if 2 \<le> length (filter (\<lambda>x. 0 < x) [informal ?bd, polite ?bd, very_polite ?bd])
          \<and> (\<forall>x \<in> set [informal ?bd, polite ?bd, very_polite ?bd]. 0 < x \<longrightarrow> 1 / 5 < x)
       then Mixed
       else if 0 < very_polite ?bd then VeryPolite
       else if 0 < polite ?bd then Polite
       else if 0 < informal ?bd then Informal
       else Polite)"
    by blast
  show ?thesis
    unfolding a bd b by simp
qed

theorem C3_three_registers_counterexample:
  "level_count (word_analysis (analyze ties_to_even three_register_text three_register_words
      None None 22)) Informal = 2
   \<and> level_count (word_analysis (analyze ties_to_even three_register_text three_register_words
      None None 22)) Polite = 2
   \<and> level_count (word_analysis (analyze ties_to_even three_register_text three_register_words
      None None 22)) VeryPolite = 1
   \<and> level (analyze ties_to_even three_register_text three_register_words None None 22)
      = VeryPolite"
  by (simp add: level_analyze level_breakdown_analyze word_analysis_analyze level_count_map
      three_register_levels three_register_breakdown get_dominant_level_enhanced_def
      breakdown_items_def dict_get_def Let_def)

subsection \<open>Usage ratios\<close>

text \<open>
  Claim C8 (amended). In every analysis result the four reported ratios (informal,
  polite, very_polite and honorific) are the shares of the tokens tagged with that level
  among the tokens tagged with any of the four levels, each rounded to two decimals: each
  reported ratio is a multiple of 0.01 within 0.005 of its share, and the four together
  sum to 1 up to 0.02 whenever at least one such token exists. The honorific ratio is
  part of that sum: the three main ratios alone sum, up to 0.015, to 1 minus the
  honorific share, hence to 1 when no token is tagged honorific. When no token carries
  any of the four levels, all four ratios are 0.
\<close>

theorem C8_reported_ratios:
  "level_breakdown (analyze tie_up text ws target_role target_age user_age) =
      calculate_level_breakdown tie_up
        (word_analysis (analyze tie_up text ws target_role target_age user_age))
   \<and> (breakdown_total analyses = 0 \<longrightarrow>
        calculate_level_breakdown tie_up analyses =
          \<lparr>informal = 0, polite = 0, very_polite = 0, honorific = 0\<rparr>)
   \<and> (0 < breakdown_total analyses \<longrightarrow>
        rounded_share (informal (calculate_level_breakdown tie_up analyses))
          (level_count analyses Informal) (breakdown_total analyses)
        \<and> rounded_share (polite (calculate_level_breakdown tie_up analyses))
          (level_count analyses Polite) (breakdown_total analyses)
        \<and> rounded_share (very_polite (calculate_level_breakdown tie_up analyses))
          (level_count analyses VeryPolite) (breakdown_total analyses)
        \<and> rounded_share (honorific (calculate_level_breakdown tie_up analyses))
          (level_count analyses Honorific) (breakdown_total analyses)
        \<and> \<bar>informal (calculate_level_breakdown tie_up analyses)
            + polite (calculate_level_breakdown tie_up analyses)
            + very_polite (calculate_level_breakdown tie_up analyses)
            + honorific (calculate_level_breakdown tie_up analyses) - 1\<bar> \<le> 1 / 50
        \<and> \<bar>informal (calculate_level_breakdown tie_up analyses)
            + polite (calculate_level_breakdown tie_up analyses)
            + very_polite (calculate_level_breakdown tie_up analyses)
            - (1 - of_nat (level_count analyses Honorific) / of_nat (breakdown_total analyses))\<bar>
            \<le> 3 / 200
        \<and> (level_count analyses Honorific = 0 \<longrightarrow>
            \<bar>informal (calculate_level_breakdown tie_up analyses)
              + polite (calculate_level_breakdown tie_up analyses)
              + very_polite (calculate_level_breakdown tie_up analyses) - 1\<bar> \<le> 3 / 200))"
proof (intro conjI impI)
  show "level_breakdown (analyze tie_up text ws target_role target_age user_age) =
      calculate_level_breakdown tie_up
        (word_analysis (analyze tie_up text ws target_role target_age user_age))"
    by (rule level_breakdown_analyze)
next
  assume "breakdown_total analyses = 0"
  then show "calculate_level_breakdown tie_up analyses =
      \<lparr>informal = 0, polite = 0, very_polite = 0, honorific = 0\<rparr>"
    by (rule calculate_level_breakdown_empty)
next
  let ?bd = "calculate_level_breakdown tie_up analyses"
  let ?t = "of_nat (breakdown_total analyses) :: rat"
  let ?si = "of_nat (level_count analyses Informal) / ?t"
  let ?sp = "of_nat (level_count analyses Polite) / ?t"
  let ?sv = "of_nat (level_count analyses VeryPolite) / ?t"
  let ?sh = "of_nat (level_count analyses Honorific) / ?t"
  assume pos: "0 < breakdown_total analyses"
  note r = calculate_level_breakdown_rounded [OF pos, of tie_up]
  from r have ei: "\<bar>informal ?bd - ?si\<bar> \<le> 1 / 200" and ep: "\<bar>polite ?bd - ?sp\<bar> \<le> 1 / 200"
    and ev: "\<bar>very_polite ?bd - ?sv\<bar> \<le> 1 / 200" and eh: "\<bar>honorific ?bd - ?sh\<bar> \<le> 1 / 200"
    by (simp_all add: rounded_share_def)
  have s: "?si + ?sp + ?sv + ?sh = 1" by (rule shares_sum [OF pos])
  show "rounded_share (informal ?bd) (level_count analyses Informal) (breakdown_total analyses)"
    by (rule r)
  show "rounded_share (polite ?bd) (level_count analyses Polite) (breakdown_total analyses)"
    by (rule r)
  show "rounded_share (very_polite ?bd) (level_count analyses VeryPolite)
      (breakdown_total analyses)"
    by (rule r)
  show "rounded_share (honorific ?bd) (level_count analyses Honorific) (breakdown_total analyses)"
    by (rule r)
  show "\<bar>informal ?bd + polite ?bd + very_polite ?bd + honorific ?bd - 1\<bar> \<le> 1 / 50"
    using ei ep ev eh s by linarith
  show "\<bar>informal ?bd + polite ?bd + very_polite ?bd - (1 - ?sh)\<bar> \<le> 3 / 200"
    using ei ep ev s by linarith
  assume "level_count analyses Honorific = 0"
  then have "?sh = 0" by simp
  then show "\<bar>informal ?bd + polite ?bd + very_polite ?bd - 1\<bar> \<le> 3 / 200"
    using ei ep ev s by linarith
qed

theorem C8_reported_ratios_witness:
  "0 < breakdown_total (analyze_words three_register_text three_register_words Polite)
   \<and> rounded_share
        (informal (calculate_level_breakdown ties_to_even
          (analyze_words three_register_text three_register_words Polite)))
        (level_count (analyze_words three_register_text three_register_words Polite) Informal)
        (breakdown_total (analyze_words three_register_text three_register_words Polite))
   \<and> \<bar>informal (calculate_level_breakdown ties_to_even
          (analyze_words three_register_text three_register_words Polite))
       + polite (calculate_level_breakdown ties_to_even
          (analyze_words three_register_text three_register_words Polite))
       + very_polite (calculate_level_breakdown ties_to_even
          (analyze_words three_register_text three_register_words Polite))
       + honorific (calculate_level_breakdown ties_to_even
          (analyze_words three_register_text three_register_words Polite)) - 1\<bar> \<le> 1 / 50"
proof -
  let ?as = "analyze_words three_register_text three_register_words Polite"
  have pos: "0 < breakdown_total ?as"
    by (simp add: breakdown_total_def level_count_map three_register_levels)
  from C8_reported_ratios [where tie_up = ties_to_even and analyses = ?as] pos show ?thesis
    by blast
qed

theorem C8_honorific_in_total_counterexample:
  "level_count (word_analysis (analyze ties_to_even informal_honorific_text
      informal_honorific_words None None 22)) Informal = 1
   \<and> informal (level_breakdown (analyze ties_to_even informal_honorific_text
      informal_honorific_words None None 22))
     + polite (level_breakdown (analyze ties_to_even informal_honorific_text
      informal_honorific_words None None 22))
     + very_polite (level_breakdown (analyze ties_to_even informal_honorific_text
      informal_honorific_words None None 22)) = 1 / 2
   \<and> honorific (level_breakdown (analyze ties_to_even informal_honorific_text
      informal_honorific_words None None 22)) = 1 / 2"
  by (simp add: level_breakdown_analyze word_analysis_analyze level_count_map
      informal_honorific_levels informal_honorific_breakdown)

subsection \<open>Honorific override\<close>

text \<open>
  Claim C2 (amended). In the sentence-level service, a text whose honorific-marker
  weights sum to 15 or more has the dominant register VeryPolite, whatever the counts of
  sentence endings are, also when no sentence was classified VeryPolite. The enhanced
  service has no such override: its dominant register is computed from the level
  breakdown alone, and when no token is tagged informal, polite or very_polite the
  result is the default Polite, however many honorific markers the text holds.
\<close>

theorem C2_honorific_override:
  "(15 \<le> text_honorific_score text \<longrightarrow>
      get_dominant_level level_counts (text_honorific_score text) = VeryPolite)
   \<and> (level_count analyses Informal = 0 \<and> level_count analyses Polite = 0
        \<and> level_count analyses VeryPolite = 0 \<longrightarrow>
      get_dominant_level_enhanced (calculate_level_breakdown tie_up analyses) = Polite)"
proof (intro conjI impI)
  assume "15 \<le> text_honorific_score text"
  then show "get_dominant_level level_counts (text_honorific_score text) = VeryPolite"
    by (simp add: get_dominant_level_def)
next
  assume "level_count analyses Informal = 0 \<and> level_count analyses Polite = 0
      \<and> level_count analyses VeryPolite = 0"
  then have "informal (calculate_level_breakdown tie_up analyses) = 0"
      "polite (calculate_level_breakdown tie_up analyses) = 0"
      "very_polite (calculate_level_breakdown tie_up analyses) = 0"
    by (simp_all add: calculate_level_breakdown_def Let_def round2_zero)
  then show "get_dominant_level_enhanced (calculate_level_breakdown tie_up analyses) = Polite"
    by (rule get_dominant_level_enhanced_no_main)
qed

theorem C2_honorific_override_witness:
  "15 \<le> text_honorific_score honorific_text
   \<and> get_dominant_level \<lparr>very_polite_count = 0, polite_count = 0, informal_count = 0\<rparr>
        (text_honorific_score honorific_text) = VeryPolite
   \<and> level_count (analyze_words honorific_text honorific_words Polite) Informal = 0
   \<and> get_dominant_level_enhanced (calculate_level_breakdown ties_to_even
        (analyze_words honorific_text honorific_words Polite)) = Polite"
proof -
  let ?as = "analyze_words honorific_text honorific_words Polite"
  have sc: "15 \<le> text_honorific_score honorific_text"
    by (simp add: honorific_text_score)
  have lc: "level_count ?as Informal = 0" "level_count ?as Polite = 0"
      "level_count ?as VeryPolite = 0"
    by (simp_all add: level_count_map honorific_levels)
  from C2_honorific_override [of honorific_text
      "\<lparr>very_polite_count = 0, polite_count = 0, informal_count = 0\<rparr>" ?as ties_to_even]
    sc lc
  show ?thesis by blast
qed

theorem C2_enhanced_no_override_counterexample:
  "15 \<le> text_honorific_score honorific_text
   \<and> level (analyze ties_to_even honorific_text honorific_words None None 22) = Polite"
  by (simp add: honorific_text_score level_analyze level_breakdown_analyze
      word_analysis_analyze honorific_breakdown get_dominant_level_enhanced_def
      breakdown_items_def dict_get_def Let_def)

subsection \<open>Score of a mixed result\<close>

text \<open>
  Claim C6 (evaluation of the scorer). The scorer reads the rank of the dominant
  register with the default 1, so a Mixed dominant register is scored exactly as Polite
  is: against an expected register Informal or Polite it satisfies the comparison of the
  first rule and earns the 30 points. For the greeting example addressed to a friend the
  result is Mixed, not appropriate, and scored 80 (50 plus 30).
\<close>

theorem C6_mixed_scored_as_polite:
  "calculate_score Mixed expected breakdown error_count =
      calculate_score Polite expected breakdown error_count
   \<and> level (analyze ties_to_even greeting_text greeting_words (Some (str ''friend'')) None 22)
      = Mixed
   \<and> recommended_level
        (analyze ties_to_even greeting_text greeting_words (Some (str ''friend'')) None 22)
      = Some Informal
   \<and> \<not> is_appropriate
        (analyze ties_to_even greeting_text greeting_words (Some (str ''friend'')) None 22)
   \<and> score (analyze ties_to_even greeting_text greeting_words (Some (str ''friend'')) None 22)
      = 80
   \<and> calculate_score Informal Polite
        \<lparr>informal = 1 / 2, polite = 1 / 2, very_polite = 0, honorific = 0\<rparr> 0 = 60"
proof -
  let ?r = "analyze ties_to_even greeting_text greeting_words (Some (str ''friend'')) None 22"
  have bd: "level_breakdown ?r =
      \<lparr>informal = 1 / 2, polite = 1 / 2, very_polite = 0, honorific = 0\<rparr>"
    by (simp add: level_breakdown_analyze word_analysis_analyze friend_expected
        greeting_breakdown)
  have dom: "get_dominant_level_enhanced
      \<lparr>informal = 1 / 2, polite = 1 / 2, very_polite = 0, honorific = 0\<rparr> = Mixed"
    by (simp add: get_dominant_level_enhanced_def breakdown_items_def dict_get_def Let_def)
  have lv: "level ?r = Mixed"
    by (simp add: level_analyze bd dom)
  have errs: "errors ?r = []"
    by (simp add: errors_analyze word_analysis_analyze friend_expected greeting_analysis
        categorize_errors_def error_counts_def truthy_def)
  have rank: "dict_get level_order Mixed 1 = dict_get level_order Polite 1"
    by (simp add: dict_get_def level_order_def)
  have "calculate_score Mixed expected breakdown error_count =
      calculate_score Polite expected breakdown error_count"
    unfolding calculate_score_def by (simp only: rank)
  moreover note lv
  moreover have "recommended_level ?r = Some Informal"
    by (simp add: recommended_level_analyze friend_expected)
  moreover have "\<not> is_appropriate ?r"
    by (simp add: is_appropriate_analyze lv check_appropriateness_def)
  moreover have "calculate_score Mixed Informal
      \<lparr>informal = 1 / 2, polite = 1 / 2, very_polite = 0, honorific = 0\<rparr> 0 = 80"
    by (simp add: calculate_score_def dict_get_def level_order_def Let_def)
  then have "score ?r = 80"
    by (simp add: score_analyze lv bd errs friend_expected)
  moreover have "calculate_score Informal Polite
      \<lparr>informal = 1 / 2, polite = 1 / 2, very_polite = 0, honorific = 0\<rparr> 0 = 60"
    by (simp add: calculate_score_def dict_get_def level_order_def Let_def)
  ultimately show ?thesis by blast
qed

section \<open>Properties of the error categorizer\<close>

subsection \<open>The engine tags every mismatch as an ending mismatch\<close>





subsection \<open>The summaries of analyzed tokens\<close>








subsection \<open>Order of the summaries\<close>



end
